theory Spec2Isabelle
  imports Main "HOL-Library.Word"
begin

section \<open>Python values used by the message handler\<close>

text \<open>
  Strings are ASCII \<open>string\<close>s (lists of bytes); Python integers are \<open>int\<close>.
  An optional value (\<open>None\<close> or a value) is an \<open>option\<close>.
\<close>

type_synonym bytes = string

text \<open>
  The exceptions a send can raise.  Python raises \<open>ValueError\<close> at three places of
  \<open>generate_mesh_packet\<close> (the sigil test, \<open>int(..., 16)\<close>, the reserved test) and the
  protobuf setters raise it for a value outside the field's range; subscripting
  \<open>False\<close>, \<open>int(None)\<close> and assigning \<open>None\<close> to a numeric field raise
  \<open>TypeError\<close>; \<open>None.encode\<close> raises \<open>AttributeError\<close>.  \<open>External\<close> stands for
  whatever the modules outside this file raise (key decoding, transport, configuration).
\<close>

datatype error =
    TypeError
  | AttributeError
  | ValueError_sigil            \<comment> \<open>\<open>ValueError("Node ID must start with '!'")\<close>\<close>
  | ValueError_literal string   \<comment> \<open>\<open>int()\<close>: invalid literal for int() with base 16\<close>
  | ValueError_reserved int     \<comment> \<open>\<open>ValueError("Node ID '...' is reserved ...")\<close>\<close>
  | ValueError_range int        \<comment> \<open>protobuf: value out of range for a 32-bit field\<close>
  | External string

text \<open>The spec's \<open>InvalidNodeId\<close>: malformed or reserved source address.\<close>

fun InvalidNodeId :: "error \<Rightarrow> bool" where
  "InvalidNodeId ValueError_sigil = True"
| "InvalidNodeId (ValueError_literal s) = True"
| "InvalidNodeId (ValueError_reserved n) = True"
| "InvalidNodeId e = False"

subsection \<open>\<open>x or y\<close>\<close>

text \<open>\<open>x or y\<close> is \<open>x\<close> when \<open>x\<close> is truthy; \<open>None\<close>, \<open>""\<close> and \<open>0\<close> are falsy.\<close>

definition or_str :: "string option \<Rightarrow> string \<Rightarrow> string" where
  "or_str x y = (case x of None \<Rightarrow> y | Some s \<Rightarrow> if s = [] then y else s)"

definition or_int :: "int option \<Rightarrow> int option \<Rightarrow> int option" where
  "or_int x y = (case x of None \<Rightarrow> y | Some n \<Rightarrow> if n = 0 then y else Some n)"

text \<open>\<open>getattr(args, name, None) or None\<close> of \<open>handle_args\<close>.\<close>

definition or_None_str :: "string option \<Rightarrow> string option" where
  "or_None_str x = (case x of None \<Rightarrow> None | Some s \<Rightarrow> if s = [] then None else Some s)"

definition or_None_int :: "int option \<Rightarrow> int option" where
  "or_None_int x = or_int x None"

text \<open>\<open>kwargs.get(key, default)\<close>: the outer \<open>None\<close> is an absent key.\<close>

definition kwargs_get :: "'a option \<Rightarrow> 'a \<Rightarrow> 'a" where
  "kwargs_get entry dflt = (case entry of None \<Rightarrow> dflt | Some v \<Rightarrow> v)"

subsection \<open>String methods\<close>

definition startswith :: "string \<Rightarrow> string \<Rightarrow> bool" where
  "startswith s p = (take (length p) s = p)"

text \<open>\<open>s.replace(c, "")\<close> for a one-character \<open>c\<close> removes every occurrence of it.\<close>

definition replace_empty :: "string \<Rightarrow> char \<Rightarrow> string" where
  "replace_empty s c = filter (\<lambda>x. x \<noteq> c) s"

definition lower_char :: "char \<Rightarrow> char" where
  "lower_char c =
     (let n = (of_char c :: nat) in if 65 \<le> n \<and> n \<le> 90 then char_of (n + 32) else c)"

definition lower :: "string \<Rightarrow> string" where
  "lower s = map lower_char s"

subsection \<open>\<open>int(s, base)\<close>\<close>

text \<open>
  CPython's \<open>PyLong_FromString\<close>: surrounding whitespace (tab, line feed, vertical tab,
  form feed, carriage return, space) is skipped, then an optional
  sign, for base 16 an optional \<open>0x\<close> or \<open>0X\<close> (after which one underscore may stand),
  then digits, single underscores allowed between two digits.  Anything else is a
  \<open>ValueError\<close>.
\<close>

definition digit_value :: "char \<Rightarrow> nat option" where
  "digit_value c =
     (let n = (of_char c :: nat) in
      if 48 \<le> n \<and> n \<le> 57 then Some (n - 48)
      else if 97 \<le> n \<and> n \<le> 122 then Some (n - 87)
      else if 65 \<le> n \<and> n \<le> 90 then Some (n - 55)
      else None)"

definition digit_in :: "nat \<Rightarrow> char \<Rightarrow> nat option" where
  "digit_in base c =
     (case digit_value c of None \<Rightarrow> None | Some v \<Rightarrow> if v < base then Some v else None)"

definition isspace :: "char \<Rightarrow> bool" where
  "isspace c = (let n = (of_char c :: nat) in (9 \<le> n \<and> n \<le> 13) \<or> n = 32)"

fun more_digits :: "nat \<Rightarrow> int \<Rightarrow> string \<Rightarrow> int option" where
  "more_digits base acc [] = Some acc"
| "more_digits base acc [c] =
     (case digit_in base c of None \<Rightarrow> None | Some v \<Rightarrow> Some (acc * int base + int v))"
| "more_digits base acc (c # d # cs) =
     (if c = CHR ''_'' then
        (case digit_in base d of None \<Rightarrow> None
         | Some v \<Rightarrow> more_digits base (acc * int base + int v) cs)
      else
        (case digit_in base c of None \<Rightarrow> None
         | Some v \<Rightarrow> more_digits base (acc * int base + int v) (d # cs)))"

definition digits :: "nat \<Rightarrow> string \<Rightarrow> int option" where
  "digits base s =
     (case s of [] \<Rightarrow> None
      | c # cs \<Rightarrow> (case digit_in base c of None \<Rightarrow> None | Some v \<Rightarrow> more_digits base (int v) cs))"

definition strip :: "string \<Rightarrow> string" where
  "strip s = rev (dropWhile isspace (rev (dropWhile isspace s)))"

definition skip_prefix :: "nat \<Rightarrow> string \<Rightarrow> string" where
  "skip_prefix base s =
     (case s of
        c # x # rest \<Rightarrow>
          if base = 16 \<and> c = CHR ''0'' \<and> (x = CHR ''x'' \<or> x = CHR ''X'')
          then (case rest of u # rest' \<Rightarrow> if u = CHR ''_'' then rest' else rest | [] \<Rightarrow> rest)
          else s
      | _ \<Rightarrow> s)"

definition int_of_str :: "string \<Rightarrow> nat \<Rightarrow> error + int" where
  "int_of_str s base =
     (let t = strip s;
          (sign, u) = (case t of
                         c # cs \<Rightarrow> if c = CHR ''-'' then (- 1, cs)
                                   else if c = CHR ''+'' then (1, cs) else (1, t)
                       | [] \<Rightarrow> (1, t))
      in case digits base (skip_prefix base u) of
           None \<Rightarrow> Inl (ValueError_literal s)
         | Some n \<Rightarrow> Inr (sign * n))"

text \<open>\<open>int(x)\<close> for an optional integer: \<open>int(None)\<close> raises.\<close>

definition int_of :: "int option \<Rightarrow> error + int" where
  "int_of x = (case x of None \<Rightarrow> Inl TypeError | Some n \<Rightarrow> Inr n)"

section \<open>Data model\<close>

text \<open>
  \<open>mesh_pb2.Data\<close>, \<open>mesh_pb2.MeshPacket\<close> and \<open>mqtt_pb2.ServiceEnvelope\<close>, with the
  fields the handler writes.  The numeric fields of \<open>MeshPacket\<close> are 32-bit unsigned
  protobuf fields holding a Python integer.  \<open>decoded\<close> and \<open>encrypted\<close> are the two
  members of the packet's payload variant; a member that was never assigned is \<open>None\<close>.
\<close>

record data =
  d_portnum :: int
  d_payload :: bytes
  d_want_response :: bool
  d_bitfield :: int

record mesh_packet =
  mp_id :: int
  mp_from :: int
  mp_to :: int
  mp_want_ack :: bool
  mp_channel :: int
  mp_hop_limit :: int
  mp_hop_start :: int
  mp_decoded :: "data option"
  mp_encrypted :: "bytes option"

record service_envelope =
  se_packet :: mesh_packet
  se_channel_id :: string
  se_gateway_id :: string

text \<open>\<open>mesh_pb2.MeshPacket()\<close>: every field at its default, no payload variant.\<close>

definition MeshPacket :: mesh_packet where
  "MeshPacket =
     \<lparr>mp_id = 0, mp_from = 0, mp_to = 0, mp_want_ack = False, mp_channel = 0,
      mp_hop_limit = 0, mp_hop_start = 0, mp_decoded = None, mp_encrypted = None\<rparr>"

text \<open>
  Assigning to a 32-bit unsigned protobuf field: \<open>None\<close> is a \<open>TypeError\<close>, an integer
  outside \<open>0 .. 2^32 - 1\<close> a \<open>ValueError\<close>.
\<close>

definition uint32_field :: "int option \<Rightarrow> error + int" where
  "uint32_field x =
     (case x of None \<Rightarrow> Inl TypeError
      | Some v \<Rightarrow> if 0 \<le> v \<and> v < 2 ^ 32 then Inr v else Inl (ValueError_range v))"

text \<open>
  The \<open>_overrides\<close> dictionary built by \<open>handle_args\<close>, and the keyword arguments of a
  send that the handler reads.  \<open>kwargs.get("_overrides", False)\<close> is \<open>None\<close> here when
  the key is absent.  For \<open>to\<close>, \<open>hop_limit\<close> and \<open>hop_start\<close> the outer \<open>None\<close> is an
  absent key and \<open>Some None\<close> the value \<open>None\<close>.
\<close>

record overrides =
  ov_node_id :: "string option"
  ov_channel_preset :: "string option"
  ov_channel_key :: "string option"
  ov_destination :: "int option"
  ov_hop_limit :: "int option"
  ov_priority :: "string option"

record kwargs =
  kw_use_config :: "bool option"
  kw_overrides :: "overrides option"
  kw_to :: "int option option"
  kw_want_ack :: "bool option"
  kw_want_response :: "bool option"
  kw_hop_limit :: "int option option"
  kw_hop_start :: "int option option"

text \<open>
  The configuration object (\<open>config.nodeinfo.id\<close>, \<open>config.channel.preset\<close>,
  \<open>config.channel.key\<close>, \<open>config.mqtt.root_topic\<close>, \<open>config.message.destination_id\<close>)
  and the attributes of the module \<open>mmqtt.client\<close>.
\<close>

record config =
  cfg_nodeinfo_id :: string
  cfg_channel_preset :: string
  cfg_channel_key :: string
  cfg_mqtt_root_topic :: string
  cfg_message_destination_id :: "int option"

record client =
  cl_node_id :: string
  cl_channel :: string
  cl_key :: string
  cl_root_topic :: string
  cl_destination_id :: "int option"

text \<open>
  The mutable state of the process: the module globals \<open>_config\<close> and \<open>message_id\<close> of
  the handler and the attributes of \<open>mmqtt.client\<close>.
\<close>

record state =
  config_global :: "config option"
  client_module :: client
  message_id :: "32 word"

text \<open>
  Modelled from the spec: the modules of the package that the handler calls, \<open>mmqtt.utils\<close>
  (\<open>generate_hash\<close>, \<open>get_message_id\<close>), \<open>mmqtt.encryption\<close> (\<open>encrypt_packet\<close>),
  \<open>mmqtt.load_config\<close> (\<open>ConfigLoader.get_config\<close>) and \<open>mmqtt.client\<close> (\<open>publish\<close>),
  are parameters of every definition below, typed by their contracts:
  \<open>hash(channel_name, channel_key) -> u8\<close>, deterministic, no error conditions;
  \<open>next(previous: u32) -> u32\<close>, no error conditions; \<open>encrypt\<close> returns bytes
  determined by its arguments or fails; \<open>publish(topic, bytes)\<close> returns or fails.
\<close>

record collaborators =
  generate_hash :: "string \<Rightarrow> string \<Rightarrow> 8 word"
  get_message_id :: "32 word \<Rightarrow> 32 word"
  encrypt_packet :: "string \<Rightarrow> string \<Rightarrow> mesh_packet \<Rightarrow> data \<Rightarrow> error + bytes"
  ConfigLoader_get_config :: "error + config"
  client_publish :: "string \<Rightarrow> service_envelope \<Rightarrow> error option"

text \<open>
  What a send leaves behind: the lines it prints and the transport calls it makes.  The
  first printed line carries the port number (the name that \<open>get_portnum_name\<close> looks up
  in the protobuf enumeration is left out).
\<close>

datatype event =
    Print_TX int
  | Print_Topic string
  | Print_To "int option"
  | Print_Error error
  | Publish string service_envelope

section \<open>The message handler\<close>

text \<open>\<open>_get_config\<close>: the configuration is loaded at the first call and kept.\<close>

definition get_config :: "collaborators \<Rightarrow> state \<Rightarrow> (error + config) \<times> state" where
  "get_config col s =
     (case config_global s of
        Some c \<Rightarrow> (Inr c, s)
      | None \<Rightarrow>
          (case ConfigLoader_get_config col of
             Inl e \<Rightarrow> (Inl e, s)
           | Inr c \<Rightarrow> (Inr c, s\<lparr>config_global := Some c\<rparr>)))"

subsection \<open>\<open>generate_mesh_packet\<close>\<close>

text \<open>
  The local variables that both branches of \<open>generate_mesh_packet\<close> set (lines 88-96 over
  the configuration, lines 100-108 over \<open>mmqtt.client\<close>; the statements are the same).
\<close>

record resolved =
  r_overrides :: overrides
  r_node_id :: string
  r_channel_id :: string
  r_channel_key :: string
  r_gateway_id :: string
  r_from_id :: int
  r_destination :: "int option"

definition resolve_from ::
  "kwargs \<Rightarrow> string \<Rightarrow> string \<Rightarrow> string \<Rightarrow> int option \<Rightarrow> error + resolved" where
  "resolve_from kw base_id base_channel base_key base_destination =
     (case kw_overrides kw of
        None \<Rightarrow> Inl TypeError
      | Some ov \<Rightarrow>
          (let node_id = or_str (ov_node_id ov) base_id in
           if \<not> startswith node_id ''!'' then Inl ValueError_sigil
           else
             (let channel_id = or_str (ov_channel_preset ov) base_channel;
                  channel_key = (case ov_channel_key ov of Some k \<Rightarrow> k | None \<Rightarrow> base_key);
                  gateway_id = lower node_id
              in (case int_of_str (replace_empty node_id CHR ''!'') 16 of
                    Inl e \<Rightarrow> Inl e
                  | Inr from_id \<Rightarrow>
                      Inr \<lparr>r_overrides = ov, r_node_id = node_id, r_channel_id = channel_id,
                           r_channel_key = channel_key, r_gateway_id = gateway_id,
                           r_from_id = from_id,
                           r_destination =
                             or_int (ov_destination ov)
                               (kwargs_get (kw_to kw) base_destination)\<rparr>))))"

definition resolve :: "collaborators \<Rightarrow> kwargs \<Rightarrow> state \<Rightarrow> (error + resolved) \<times> state" where
  "resolve col kw s =
     (if kwargs_get (kw_use_config kw) False then
        (case get_config col s of
           (Inl e, s1) \<Rightarrow> (Inl e, s1)
         | (Inr config, s1) \<Rightarrow>
             (resolve_from kw (cfg_nodeinfo_id config) (cfg_channel_preset config)
                (cfg_channel_key config) (cfg_message_destination_id config), s1))
      else
        (let cl = client_module s in
         (resolve_from kw (cl_node_id cl) (cl_channel cl) (cl_key cl) (cl_destination_id cl), s)))"

definition reserved_ids :: "int list" where
  "reserved_ids = [1, 2, 3, 4, 4294967295]"

text \<open>
  Lines 117-134, after \<open>message_id\<close> was advanced: the packet is filled field by field
  (each assignment can raise), the body is set (\<open>set_body\<close>, lines 126-129), and the
  envelope wraps the packet.  The result stands for the bytes that \<open>SerializeToString\<close>
  makes of the envelope.
\<close>

definition set_body ::
  "collaborators \<Rightarrow> string \<Rightarrow> string \<Rightarrow> mesh_packet \<Rightarrow> data \<Rightarrow> error + mesh_packet" where
  "set_body col channel_id channel_key mesh_packet encoded_message =
     (if channel_key = []
      then Inr (mesh_packet\<lparr>mp_decoded := Some encoded_message\<rparr>)
      else (case encrypt_packet col channel_id channel_key mesh_packet encoded_message of
              Inl e \<Rightarrow> Inl e
            | Inr b \<Rightarrow> Inr (mesh_packet\<lparr>mp_encrypted := Some b\<rparr>)))"

definition fill_packet ::
  "collaborators \<Rightarrow> data \<Rightarrow> kwargs \<Rightarrow> resolved \<Rightarrow> 32 word \<Rightarrow> error + service_envelope" where
  "fill_packet col encoded_message kw r mid =
     (let ov = r_overrides r; channel_id = r_channel_id r; channel_key = r_channel_key r in
      (case uint32_field (Some (r_from_id r)) of Inl e \<Rightarrow> Inl e | Inr from_id \<Rightarrow>
      (case int_of (r_destination r) of Inl e \<Rightarrow> Inl e | Inr destination \<Rightarrow>
      (case uint32_field (Some destination) of Inl e \<Rightarrow> Inl e | Inr to \<Rightarrow>
      (case uint32_field (or_int (ov_hop_limit ov) (kwargs_get (kw_hop_limit kw) (Some 3))) of
         Inl e \<Rightarrow> Inl e | Inr hop_limit \<Rightarrow>
      (case uint32_field (or_int (ov_hop_limit ov) (kwargs_get (kw_hop_start kw) (Some 3))) of
         Inl e \<Rightarrow> Inl e | Inr hop_start \<Rightarrow>
      (case set_body col channel_id channel_key
              (MeshPacket
                 \<lparr>mp_id := uint mid, mp_from := from_id, mp_to := to,
                  mp_want_ack := kwargs_get (kw_want_ack kw) False,
                  mp_channel := uint (generate_hash col channel_id channel_key),
                  mp_hop_limit := hop_limit, mp_hop_start := hop_start\<rparr>)
              encoded_message of
         Inl e \<Rightarrow> Inl e
       | Inr mesh_packet \<Rightarrow>
           Inr \<lparr>se_packet = mesh_packet, se_channel_id = channel_id,
                se_gateway_id = r_gateway_id r\<rparr>)))))))"

definition generate_mesh_packet ::
  "collaborators \<Rightarrow> data \<Rightarrow> kwargs \<Rightarrow> state \<Rightarrow> (error + service_envelope) \<times> state" where
  "generate_mesh_packet col encoded_message kw s =
     (case resolve col kw s of
        (Inl e, s1) \<Rightarrow> (Inl e, s1)
      | (Inr r, s1) \<Rightarrow>
          if r_from_id r \<in> set reserved_ids
          then (Inl (ValueError_reserved (r_from_id r)), s1)
          else
            let mid = get_message_id col (message_id s1);
                s2 = s1\<lparr>message_id := mid\<rparr>
            in (fill_packet col encoded_message kw r mid, s2))"

text \<open>\<open>create_payload\<close>; \<open>data\<close> is the payload already serialised to bytes.\<close>

definition create_payload ::
  "collaborators \<Rightarrow> bytes \<Rightarrow> int \<Rightarrow> int \<Rightarrow> kwargs \<Rightarrow> state
     \<Rightarrow> (error + service_envelope) \<times> state" where
  "create_payload col dat portnum bitfield kw s =
     generate_mesh_packet col
       \<lparr>d_portnum = portnum, d_payload = dat,
        d_want_response = kwargs_get (kw_want_response kw) False, d_bitfield = bitfield\<rparr>
       kw s"

subsection \<open>\<open>publish_message\<close>\<close>

text \<open>
  A payload function is called with the port number and the keyword arguments; it reads
  and changes the state of the process and returns the serialised envelope or raises.
\<close>

type_synonym payload_function =
  "int \<Rightarrow> kwargs \<Rightarrow> state \<Rightarrow> (error + service_envelope) \<times> state"

text \<open>
  Lines 39-47: the override is written into the configuration (or into \<open>mmqtt.client\<close>)
  and the topic is built from what was written.
\<close>

definition topic_of :: "string \<Rightarrow> string \<Rightarrow> string \<Rightarrow> string" where
  "topic_of root preset nid = root @ ''/2/e/'' @ preset @ ''/'' @ lower nid"

definition publish_topic :: "collaborators \<Rightarrow> kwargs \<Rightarrow> state \<Rightarrow> (error + string) \<times> state" where
  "publish_topic col kw s =
     (if kwargs_get (kw_use_config kw) False then
        (case get_config col s of
           (Inl e, s1) \<Rightarrow> (Inl e, s1)
         | (Inr config, s1) \<Rightarrow>
             (case kw_overrides kw of
                None \<Rightarrow> (Inl TypeError, s1)
              | Some ov \<Rightarrow>
                  (let config1 = config\<lparr>cfg_nodeinfo_id :=
                                   or_str (ov_node_id ov) (cfg_nodeinfo_id config)\<rparr>;
                       config2 = config1\<lparr>cfg_channel_preset :=
                                   or_str (ov_channel_preset ov) (cfg_channel_preset config1)\<rparr>
                   in (Inr (topic_of (cfg_mqtt_root_topic config2) (cfg_channel_preset config2)
                              (cfg_nodeinfo_id config2)),
                       s1\<lparr>config_global := Some config2\<rparr>))))
      else
        (case kw_overrides kw of
           None \<Rightarrow> (Inl TypeError, s)
         | Some ov \<Rightarrow>
             (let cl = client_module s;
                  cl1 = cl\<lparr>cl_node_id := or_str (ov_node_id ov) (cl_node_id cl)\<rparr>;
                  cl2 = cl1\<lparr>cl_channel := or_str (ov_channel_preset ov) (cl_channel cl1)\<rparr>
              in (Inr (topic_of (cl_root_topic cl2) (cl_channel cl2) (cl_node_id cl2)),
                  s\<lparr>client_module := cl2\<rparr>))))"

text \<open>
  Lines 49-53, the destination that is printed.  It runs after \<open>publish_topic\<close>
  returned, so \<open>_overrides\<close> is a dictionary and the configuration is loaded.
\<close>

definition printed_destination :: "kwargs \<Rightarrow> state \<Rightarrow> int option" where
  "printed_destination kw s =
     (case kwargs_get (kw_to kw) None of
        Some d \<Rightarrow> Some d
      | None \<Rightarrow>
          (let destination =
                 (if kwargs_get (kw_use_config kw) False
                  then (case config_global s of
                          Some config \<Rightarrow> cfg_message_destination_id config | None \<Rightarrow> None)
                  else cl_destination_id (client_module s))
           in (case kw_overrides kw of
                 Some ov \<Rightarrow>
                   (case ov_destination ov of Some d \<Rightarrow> Some d | None \<Rightarrow> destination)
               | None \<Rightarrow> destination)))"

text \<open>
  The body of the \<open>try\<close> statement (lines 39-63): the exception raised, if any, the
  state reached and what was printed and published up to there.  The lines printed for
  the remaining keyword arguments (lines 59-61) are left out.
\<close>

definition publish_message_try ::
  "collaborators \<Rightarrow> payload_function \<Rightarrow> int \<Rightarrow> kwargs \<Rightarrow> state
     \<Rightarrow> error option \<times> state \<times> event list" where
  "publish_message_try col payload_function portnum kw s =
     (case publish_topic col kw s of
        (Inl e, s1) \<Rightarrow> (Some e, s1, [])
      | (Inr topic, s1) \<Rightarrow>
          (let destination = printed_destination kw s1 in
           (case payload_function portnum kw s1 of
              (Inl e, s2) \<Rightarrow> (Some e, s2, [])
            | (Inr payload, s2) \<Rightarrow>
                (let printed = [Print_TX portnum, Print_Topic topic, Print_To destination] in
                 (case client_publish col topic payload of
                    Some e \<Rightarrow> (Some e, s2, printed)
                  | None \<Rightarrow> (None, s2, printed @ [Publish topic payload]))))))"

text \<open>
  \<open>publish_message\<close>: \<open>try: ... except Exception as e: print(...)\<close>.  \<open>Inl\<close> would be
  an exception that leaves \<open>publish_message\<close>.
\<close>

definition publish_message ::
  "collaborators \<Rightarrow> payload_function \<Rightarrow> int \<Rightarrow> kwargs \<Rightarrow> state
     \<Rightarrow> error + state \<times> event list" where
  "publish_message col payload_function portnum kw s =
     (case publish_message_try col payload_function portnum kw s of
        (Some e, s', out) \<Rightarrow> Inr (s', out @ [Print_Error e])
      | (None, s', out) \<Rightarrow> Inr (s', out))"

subsection \<open>\<open>send_text_message\<close>\<close>

definition TEXT_MESSAGE_APP :: int where
  "TEXT_MESSAGE_APP = 1"

definition create_text_payload :: "collaborators \<Rightarrow> string option \<Rightarrow> payload_function" where
  "create_text_payload col message portnum kw s =
     (case message of
        None \<Rightarrow> (Inl AttributeError, s)
      | Some m \<Rightarrow> create_payload col m portnum 1 kw s)"


section \<open>The argument parser\<close>

text \<open>The parsed arguments that \<open>handle_args\<close> turns into \<open>_overrides\<close> (lines 93-111).\<close>

record args =
  arg_node_id :: "string option"
  arg_channel_preset :: "string option"
  arg_channel_key :: "string option"
  arg_destination :: "int option"
  arg_hop_limit :: "int option"
  arg_priority :: "string option"

definition handle_args_channel_key :: "args \<Rightarrow> string option" where
  "handle_args_channel_key a =
     (if arg_channel_key a = None then None
      else if arg_channel_key a = Some [] then Some []
      else arg_channel_key a)"

definition handle_args_overrides :: "args \<Rightarrow> overrides" where
  "handle_args_overrides a =
     \<lparr>ov_node_id = or_None_str (arg_node_id a),
      ov_channel_preset = or_None_str (arg_channel_preset a),
      ov_channel_key = handle_args_channel_key a,
      ov_destination = or_None_int (arg_destination a),
      ov_hop_limit = or_None_int (arg_hop_limit a),
      ov_priority = or_None_str (arg_priority a)\<rparr>"

text \<open>The keyword arguments \<open>use_config=True, _overrides=_overrides\<close> of the CLI sends.\<close>

definition cli_kwargs :: "overrides \<Rightarrow> kwargs" where
  "cli_kwargs ov =
     \<lparr>kw_use_config = Some True, kw_overrides = Some ov, kw_to = None, kw_want_ack = None,
      kw_want_response = None, kw_hop_limit = None, kw_hop_start = None\<rparr>"


section \<open>A test configuration\<close>

text \<open>
  Stand-ins for the collaborating modules, used to run the handler on examples: the hash
  is a constant, the next message id is the successor, encryption reverses the payload
  under any key but \<open>bad\<close>, the transport accepts every topic but the empty one.
\<close>

definition test_collaborators :: collaborators where
  "test_collaborators =
     \<lparr>generate_hash = (\<lambda>name k. 8),
      get_message_id = (\<lambda>previous. previous + 1),
      encrypt_packet = (\<lambda>name k mp d. if k = ''bad'' then Inl (External ''InvalidKey'')
                                        else Inr (rev (d_payload d))),
      ConfigLoader_get_config = Inl (External ''no configuration''),
      client_publish = (\<lambda>topic payload. if topic = [] then Some (External ''TransportFailure'')
                                          else None)\<rparr>"

definition test_config :: config where
  "test_config =
     \<lparr>cfg_nodeinfo_id = ''!a1b2c3d4'', cfg_channel_preset = ''LongFast'',
      cfg_channel_key = ''AQ=='', cfg_mqtt_root_topic = ''msh/EU_868'',
      cfg_message_destination_id = Some 4294967295\<rparr>"

definition test_state :: state where
  "test_state =
     \<lparr>config_global = Some test_config,
      client_module = \<lparr>cl_node_id = ''!DEADBEEF'', cl_channel = ''MediumFast'', cl_key = [],
                       cl_root_topic = ''msh/US'', cl_destination_id = Some 4294967295\<rparr>,
      message_id = 41\<rparr>"

definition no_overrides :: overrides where
  "no_overrides =
     \<lparr>ov_node_id = None, ov_channel_preset = None, ov_channel_key = None,
      ov_destination = None, ov_hop_limit = None, ov_priority = None\<rparr>"

definition text_hi :: data where
  "text_hi = \<lparr>d_portnum = 1, d_payload = ''hi'', d_want_response = False, d_bitfield = 1\<rparr>"

section \<open>Notions of the specification\<close>

text \<open>
  A valid hexadecimal string is a non-empty string of hexadecimal digits; its value is
  read digit by digit, most significant first.
\<close>

definition hex_digits :: string where
  "hex_digits = ''0123456789abcdefABCDEF''"

definition hex_string :: "string \<Rightarrow> bool" where
  "hex_string s = (s \<noteq> [] \<and> set s \<subseteq> set hex_digits)"

fun position :: "char \<Rightarrow> string \<Rightarrow> nat" where
  "position c [] = 0"
| "position c (x # xs) = (if c = x then 0 else Suc (position c xs))"

definition hex_digit_value :: "char \<Rightarrow> int" where
  "hex_digit_value c = int (position (lower_char c) ''0123456789abcdef'')"

definition hex_value :: "string \<Rightarrow> int" where
  "hex_value s = foldl (\<lambda>a c. a * 16 + hex_digit_value c) 0 s"


section \<open>Auxiliary facts\<close>

subsection \<open>What a successful step tells\<close>

lemma get_config_cases:
  assumes "get_config col s = (res, s1)"
  shows "message_id s1 = message_id s \<and> client_module s1 = client_module s"
    and "config_global s = Some c \<Longrightarrow> res = Inr c \<and> s1 = s"
    and "res = Inr c \<Longrightarrow> config_global s1 = Some c"
  using assms by (auto simp: get_config_def split: option.splits sum.splits)

lemma resolve_frame:
  assumes "resolve col kw s = (res, s1)"
  shows "message_id s1 = message_id s \<and> client_module s1 = client_module s"
  using assms get_config_cases(1)[of col s]
  by (auto simp: resolve_def Let_def split: if_splits prod.splits sum.splits)

lemma resolve_from_Inr:
  assumes "resolve_from kw bi bc bk bd = Inr r"
  shows "\<exists>ov. kw_overrides kw = Some ov \<and> r_overrides r = ov
          \<and> r_node_id r = or_str (ov_node_id ov) bi
          \<and> startswith (r_node_id r) ''!''
          \<and> r_channel_id r = or_str (ov_channel_preset ov) bc
          \<and> r_channel_key r = (case ov_channel_key ov of Some k \<Rightarrow> k | None \<Rightarrow> bk)
          \<and> r_gateway_id r = lower (r_node_id r)
          \<and> int_of_str (replace_empty (r_node_id r) CHR ''!'') 16 = Inr (r_from_id r)
          \<and> r_destination r = or_int (ov_destination ov) (kwargs_get (kw_to kw) bd)"
  using assms
  by (auto simp: resolve_from_def Let_def split: option.splits if_splits sum.splits)

lemma resolve_Inr:
  assumes "resolve col kw s = (Inr r, s1)"
  shows "if kwargs_get (kw_use_config kw) False
         then (\<exists>config. get_config col s = (Inr config, s1)
                \<and> resolve_from kw (cfg_nodeinfo_id config) (cfg_channel_preset config)
                     (cfg_channel_key config) (cfg_message_destination_id config) = Inr r)
         else s1 = s \<and> resolve_from kw (cl_node_id (client_module s)) (cl_channel (client_module s))
                     (cl_key (client_module s)) (cl_destination_id (client_module s)) = Inr r"
  using assms
  by (auto simp: resolve_def Let_def split: if_splits prod.splits sum.splits)

lemma resolve_node_id:
  assumes "resolve col kw s = (Inr r, s1)"
  shows "startswith (r_node_id r) ''!''
       \<and> int_of_str (replace_empty (r_node_id r) CHR ''!'') 16 = Inr (r_from_id r)
       \<and> r_gateway_id r = lower (r_node_id r)
       \<and> kw_overrides kw = Some (r_overrides r)"
  using resolve_Inr[OF assms] by (auto split: if_splits dest!: resolve_from_Inr)

lemma generate_mesh_packet_Inr:
  assumes "generate_mesh_packet col em kw s = (Inr env, s2)"
  shows "\<exists>r s1. resolve col kw s = (Inr r, s1) \<and> r_from_id r \<notin> set reserved_ids
           \<and> s2 = s1\<lparr>message_id := get_message_id col (message_id s1)\<rparr>
           \<and> fill_packet col em kw r (get_message_id col (message_id s1)) = Inr env"
  using assms
  by (auto simp: generate_mesh_packet_def Let_def split: prod.splits sum.splits if_splits)

lemma uint32_field_Inr:
  "uint32_field x = Inr w \<Longrightarrow> x = Some w \<and> 0 \<le> w \<and> w < 2 ^ 32"
  by (auto simp: uint32_field_def split: option.splits if_splits)

lemma set_body_Inr:
  assumes "set_body col cid k p em = Inr mp"
  shows "(k = [] \<longrightarrow> mp = p\<lparr>mp_decoded := Some em\<rparr>)
       \<and> (k \<noteq> [] \<longrightarrow> (\<exists>b. encrypt_packet col cid k p em = Inr b \<and> mp = p\<lparr>mp_encrypted := Some b\<rparr>))"
  using assms by (auto simp: set_body_def split: if_splits sum.splits)

lemma fill_packet_Inr:
  assumes "fill_packet col em kw r mid = Inr env"
  shows "\<exists>from_id to hop_limit hop_start mp.
           uint32_field (Some (r_from_id r)) = Inr from_id
         \<and> r_destination r = Some to \<and> uint32_field (Some to) = Inr to
         \<and> uint32_field (or_int (ov_hop_limit (r_overrides r)) (kwargs_get (kw_hop_limit kw) (Some 3))) = Inr hop_limit
         \<and> uint32_field (or_int (ov_hop_limit (r_overrides r)) (kwargs_get (kw_hop_start kw) (Some 3))) = Inr hop_start
         \<and> set_body col (r_channel_id r) (r_channel_key r)
             (MeshPacket\<lparr>mp_id := uint mid, mp_from := from_id, mp_to := to,
                mp_want_ack := kwargs_get (kw_want_ack kw) False,
                mp_channel := uint (generate_hash col (r_channel_id r) (r_channel_key r)),
                mp_hop_limit := hop_limit, mp_hop_start := hop_start\<rparr>) em = Inr mp
         \<and> env = \<lparr>se_packet = mp, se_channel_id = r_channel_id r, se_gateway_id = r_gateway_id r\<rparr>"
proof -
  from assms obtain from_id where 1: "uint32_field (Some (r_from_id r)) = Inr from_id"
    by (auto simp: fill_packet_def Let_def split: sum.splits)
  from assms 1 obtain d where 2: "int_of (r_destination r) = Inr d"
    by (auto simp: fill_packet_def Let_def split: sum.splits)
  from assms 1 2 obtain to where 3: "uint32_field (Some d) = Inr to"
    by (auto simp: fill_packet_def Let_def split: sum.splits)
  from assms 1 2 3 obtain hl where 4:
    "uint32_field (or_int (ov_hop_limit (r_overrides r)) (kwargs_get (kw_hop_limit kw) (Some 3))) = Inr hl"
    by (auto simp: fill_packet_def Let_def split: sum.splits)
  from assms 1 2 3 4 obtain hs where 5:
    "uint32_field (or_int (ov_hop_limit (r_overrides r)) (kwargs_get (kw_hop_start kw) (Some 3))) = Inr hs"
    by (auto simp: fill_packet_def Let_def split: sum.splits)
  from 2 have 6: "r_destination r = Some d" by (auto simp: int_of_def split: option.splits)
  from 3 have 7: "to = d" by (auto dest: uint32_field_Inr)
  from assms 1 2 3 4 5 show ?thesis
    unfolding 6 7 by (auto simp: fill_packet_def Let_def 6 split: sum.splits)
qed

subsection \<open>\<open>int(s, 16)\<close> on hexadecimal strings\<close>

lemma hex_digits_all:
  "list_all (\<lambda>c. digit_in 16 c = Some (nat (hex_digit_value c)) \<and> 0 \<le> hex_digit_value c
      \<and> \<not> isspace c \<and> c \<noteq> CHR ''-'' \<and> c \<noteq> CHR ''+'' \<and> c \<noteq> CHR ''_''
      \<and> c \<noteq> CHR ''x'' \<and> c \<noteq> CHR ''X'' \<and> c \<noteq> CHR ''!'') hex_digits"
  by code_simp

lemma hex_digit_facts:
  assumes "c \<in> set hex_digits"
  shows "digit_in 16 c = Some (nat (hex_digit_value c))" "0 \<le> hex_digit_value c"
    "\<not> isspace c" "c \<noteq> CHR ''-''" "c \<noteq> CHR ''+''" "c \<noteq> CHR ''_''" "c \<noteq> CHR ''x''" "c \<noteq> CHR ''X''"
    "c \<noteq> CHR ''!''"
  using assms hex_digits_all unfolding list_all_iff by blast+


lemma more_digits_hex:
  "set cs \<subseteq> set hex_digits \<Longrightarrow>
   more_digits 16 acc cs = Some (foldl (\<lambda>a c. a * 16 + hex_digit_value c) acc cs)"
proof (induction cs arbitrary: acc rule: length_induct)
  case (1 cs)
  show ?case
  proof (cases cs)
    case Nil
    then show ?thesis by simp
  next
    case (Cons c ds)
    note c = Cons
    with 1(2) have hc: "c \<in> set hex_digits" and hds: "set ds \<subseteq> set hex_digits" by auto
    show ?thesis
    proof (cases ds)
      case Nil
      with c hc show ?thesis by (simp add: hex_digit_facts(1,2,6))
    next
      case (Cons d es)
      have "more_digits 16 (acc * 16 + hex_digit_value c) ds
            = Some (foldl (\<lambda>a c. a * 16 + hex_digit_value c) (acc * 16 + hex_digit_value c) ds)"
        using 1(1) hds c by simp
      with c Cons hc show ?thesis by (simp add: hex_digit_facts(1,2,6))
    qed
  qed
qed

lemma digits_hex: "hex_string s \<Longrightarrow> digits 16 s = Some (hex_value s)"
proof -
  assume h: "hex_string s"
  then obtain c cs where s: "s = c # cs" and hc: "c \<in> set hex_digits"
    and hcs: "set cs \<subseteq> set hex_digits"
    by (cases s) (auto simp: hex_string_def)
  show ?thesis
    by (simp add: s digits_def hex_value_def hex_digit_facts(1,2)[OF hc] more_digits_hex[OF hcs])
qed

lemma strip_hex: "hex_string s \<Longrightarrow> strip s = s"
proof -
  assume h: "hex_string s"
  then obtain c cs where s: "s = c # cs" and hc: "c \<in> set hex_digits"
    by (cases s) (auto simp: hex_string_def)
  have 1: "dropWhile isspace s = s" by (simp add: s hex_digit_facts(3)[OF hc])
  from h have "rev s \<noteq> []" "set (rev s) \<subseteq> set hex_digits" by (auto simp: hex_string_def)
  then obtain d ds where r: "rev s = d # ds" and hd: "d \<in> set hex_digits"
    by (cases "rev s") auto
  have "dropWhile isspace (rev s) = rev s" by (simp add: r hex_digit_facts(3)[OF hd])
  with 1 show ?thesis by (simp add: strip_def)
qed

lemma skip_prefix_hex: "hex_string s \<Longrightarrow> skip_prefix 16 s = s"
proof (cases s)
  case Nil
  then show ?thesis by (simp add: skip_prefix_def)
next
  case (Cons c cs)
  assume h: "hex_string s"
  show ?thesis
  proof (cases cs)
    case Nil
    with Cons show ?thesis by (simp add: skip_prefix_def)
  next
    case (Cons x rest)
    with h \<open>s = c # cs\<close> have "x \<in> set hex_digits" by (auto simp: hex_string_def)
    then have "x \<noteq> CHR ''x''" "x \<noteq> CHR ''X''" by (rule hex_digit_facts)+
    with Cons \<open>s = c # cs\<close> show ?thesis by (simp add: skip_prefix_def)
  qed
qed

lemma int_of_str_hex: "hex_string s \<Longrightarrow> int_of_str s 16 = Inr (hex_value s)"
proof -
  assume h: "hex_string s"
  then obtain c cs where s: "s = c # cs" and hc: "c \<in> set hex_digits"
    by (cases s) (auto simp: hex_string_def)
  have "c \<noteq> CHR ''-''" "c \<noteq> CHR ''+''" using hc by (rule hex_digit_facts)+
  then have "int_of_str s 16 = (case digits 16 (skip_prefix 16 s) of
           None \<Rightarrow> Inl (ValueError_literal s) | Some n \<Rightarrow> Inr (1 * n))"
    unfolding int_of_str_def strip_hex[OF h] by (simp add: s)
  then show ?thesis by (simp add: skip_prefix_hex[OF h] digits_hex[OF h])
qed

lemma or_str_idem: "or_str x (or_str x y) = or_str x y"
  by (simp add: or_str_def split: option.splits)

lemma resolve_from_no_sigil:
  "kw_overrides kw = Some ov \<Longrightarrow> \<not> startswith (or_str (ov_node_id ov) bi) ''!''
   \<Longrightarrow> resolve_from kw bi bc bk bd = Inl ValueError_sigil"
  by (simp add: resolve_from_def)

section \<open>The claims\<close>

subsection \<open>Node identifiers\<close>

text \<open>
  C5.  A resolved node identifier (the override when it is non-empty, else the configured
  one) that does not begin with \<open>!\<close> makes \<open>generate_mesh_packet\<close> raise the
  \<open>ValueError\<close> of the sigil test, in both modes; no envelope is returned and no
  message id is consumed.
\<close>

theorem missing_sigil_is_rejected:
  assumes "kw_overrides kw = Some ov"
      and "if kwargs_get (kw_use_config kw) False
           then get_config col s = (Inr config, s1) \<and> configured = cfg_nodeinfo_id config
           else s1 = s \<and> configured = cl_node_id (client_module s)"
      and "\<not> startswith (or_str (ov_node_id ov) configured) ''!''"
  shows "generate_mesh_packet col encoded_message kw s = (Inl ValueError_sigil, s1)
       \<and> InvalidNodeId ValueError_sigil \<and> message_id s1 = message_id s"
proof (cases "kwargs_get (kw_use_config kw) False")
  case True
  with assms(2) have g: "get_config col s = (Inr config, s1)"
    and c: "configured = cfg_nodeinfo_id config" by simp_all
  have "resolve col kw s = (Inl ValueError_sigil, s1)"
    using True g assms(1,3) by (simp add: resolve_def c resolve_from_no_sigil)
  then show ?thesis
    using get_config_cases(1)[OF g] by (simp add: generate_mesh_packet_def)
next
  case False
  with assms(2) have s1: "s1 = s" and c: "configured = cl_node_id (client_module s)" by simp_all
  have "resolve col kw s = (Inl ValueError_sigil, s)"
    using False assms(1,3) by (simp add: resolve_def Let_def c resolve_from_no_sigil)
  then show ?thesis by (simp add: generate_mesh_packet_def s1)
qed

theorem missing_sigil_is_rejected_witness:
  "kw_overrides (cli_kwargs (no_overrides\<lparr>ov_node_id := Some ''a1b2c3d4''\<rparr>))
     = Some (no_overrides\<lparr>ov_node_id := Some ''a1b2c3d4''\<rparr>)
   \<and> get_config test_collaborators test_state = (Inr test_config, test_state)
   \<and> \<not> startswith ''a1b2c3d4'' ''!''
   \<and> generate_mesh_packet test_collaborators text_hi
        (cli_kwargs (no_overrides\<lparr>ov_node_id := Some ''a1b2c3d4''\<rparr>)) test_state
      = (Inl ValueError_sigil, test_state)"
proof -
  let ?ov = "no_overrides\<lparr>ov_node_id := Some ''a1b2c3d4''\<rparr>"
  have 1: "kw_overrides (cli_kwargs ?ov) = Some ?ov" by (simp add: cli_kwargs_def)
  have g: "get_config test_collaborators test_state = (Inr test_config, test_state)"
    by (simp add: get_config_def test_state_def)
  have 2: "if kwargs_get (kw_use_config (cli_kwargs ?ov)) False
           then get_config test_collaborators test_state = (Inr test_config, test_state)
                \<and> ''!a1b2c3d4'' = cfg_nodeinfo_id test_config
           else test_state = test_state \<and> ''!a1b2c3d4'' = cl_node_id (client_module test_state)"
    by (simp add: g cli_kwargs_def kwargs_get_def test_config_def)
  have 3: "\<not> startswith (or_str (ov_node_id ?ov) ''!a1b2c3d4'') ''!''"
    by (simp add: or_str_def startswith_def)
  have 4: "\<not> startswith ''a1b2c3d4'' ''!''" by (simp add: startswith_def)
  from missing_sigil_is_rejected[OF 1 2 3, of text_hi] 1 g 4 show ?thesis by simp
qed

text \<open>
  C4.  When the resolved node identifier has the sigil and parses, and the parsed value
  is one of 1, 2, 3, 4, 4294967295, \<open>generate_mesh_packet\<close> raises the \<open>ValueError\<close> of
  the reserved test: no envelope is returned, and the message id has not been advanced,
  so no packet was created.
\<close>

theorem reserved_node_id_is_rejected:
  assumes "resolve col kw s = (Inr r, s1)"
      and "r_from_id r \<in> set reserved_ids"
  shows "generate_mesh_packet col encoded_message kw s = (Inl (ValueError_reserved (r_from_id r)), s1)
       \<and> InvalidNodeId (ValueError_reserved (r_from_id r))
       \<and> message_id s1 = message_id s
       \<and> startswith (r_node_id r) ''!''
       \<and> int_of_str (replace_empty (r_node_id r) CHR ''!'') 16 = Inr (r_from_id r)"
  using assms resolve_frame[OF assms(1)] resolve_node_id[OF assms(1)]
  by (simp add: generate_mesh_packet_def)

theorem reserved_node_id_is_rejected_witness:
  "resolve test_collaborators (cli_kwargs (no_overrides\<lparr>ov_node_id := Some ''!FFFFffff''\<rparr>)) test_state
     = (Inr \<lparr>r_overrides = no_overrides\<lparr>ov_node_id := Some ''!FFFFffff''\<rparr>,
              r_node_id = ''!FFFFffff'', r_channel_id = ''LongFast'', r_channel_key = ''AQ=='',
              r_gateway_id = ''!ffffffff'', r_from_id = 4294967295,
              r_destination = Some 4294967295\<rparr>, test_state)
   \<and> (4294967295 :: int) \<in> set reserved_ids
   \<and> generate_mesh_packet test_collaborators text_hi
        (cli_kwargs (no_overrides\<lparr>ov_node_id := Some ''!FFFFffff''\<rparr>)) test_state
      = (Inl (ValueError_reserved 4294967295), test_state)"
proof -
  let ?r = "\<lparr>r_overrides = no_overrides\<lparr>ov_node_id := Some ''!FFFFffff''\<rparr>,
              r_node_id = ''!FFFFffff'', r_channel_id = ''LongFast'', r_channel_key = ''AQ=='',
              r_gateway_id = ''!ffffffff'', r_from_id = 4294967295,
              r_destination = Some 4294967295\<rparr>"
  have 1: "resolve test_collaborators (cli_kwargs (no_overrides\<lparr>ov_node_id := Some ''!FFFFffff''\<rparr>)) test_state
     = (Inr ?r, test_state)"
    by code_simp
  have 2: "r_from_id ?r \<in> set reserved_ids" by (simp add: reserved_ids_def)
  from reserved_node_id_is_rejected[OF 1 2, of text_hi] 1 2 show ?thesis by simp
qed

subsection \<open>Facts about the body\<close>

lemma resolve_encrypt_packet_update:
  "resolve (col\<lparr>encrypt_packet := enc\<rparr>) kw s = resolve col kw s"
  by (simp add: resolve_def get_config_def cong: option.case_cong)

lemma fill_packet_cleartext:
  "r_channel_key r = [] \<Longrightarrow>
   fill_packet (col\<lparr>encrypt_packet := enc\<rparr>) em kw r mid = fill_packet col em kw r mid"
  by (simp add: fill_packet_def set_body_def Let_def cong: sum.case_cong)

lemma generate_mesh_packet_cleartext:
  assumes "resolve col kw s = (Inr r, s1)" and "r_channel_key r = []"
  shows "generate_mesh_packet (col\<lparr>encrypt_packet := enc\<rparr>) em kw s = generate_mesh_packet col em kw s"
  using assms
  by (simp add: generate_mesh_packet_def resolve_encrypt_packet_update fill_packet_cleartext Let_def)

lemma generate_mesh_packet_body:
  assumes "resolve col kw s = (Inr r, s1)"
      and "generate_mesh_packet col em kw s = (Inr env, s2)"
  shows "\<exists>p. mp_decoded p = None \<and> mp_encrypted p = None
           \<and> set_body col (r_channel_id r) (r_channel_key r) p em = Inr (se_packet env)"
proof -
  from generate_mesh_packet_Inr[OF assms(2)] assms(1)
  have "fill_packet col em kw r (get_message_id col (message_id s1)) = Inr env" by auto
  from fill_packet_Inr[OF this] obtain from_id to hop_limit hop_start mp where
    b: "set_body col (r_channel_id r) (r_channel_key r)
             (MeshPacket\<lparr>mp_id := uint (get_message_id col (message_id s1)),
                mp_from := from_id, mp_to := to,
                mp_want_ack := kwargs_get (kw_want_ack kw) False,
                mp_channel := uint (generate_hash col (r_channel_id r) (r_channel_key r)),
                mp_hop_limit := hop_limit, mp_hop_start := hop_start\<rparr>) em = Inr mp"
    and e: "env = \<lparr>se_packet = mp, se_channel_id = r_channel_id r,
                    se_gateway_id = r_gateway_id r\<rparr>"
    by blast
  let ?p = "MeshPacket\<lparr>mp_id := uint (get_message_id col (message_id s1)),
                mp_from := from_id, mp_to := to,
                mp_want_ack := kwargs_get (kw_want_ack kw) False,
                mp_channel := uint (generate_hash col (r_channel_id r) (r_channel_key r)),
                mp_hop_limit := hop_limit, mp_hop_start := hop_start\<rparr>"
  have "mp_decoded ?p = None \<and> mp_encrypted ?p = None" by (simp add: MeshPacket_def)
  moreover from b e have "set_body col (r_channel_id r) (r_channel_key r) ?p em = Inr (se_packet env)"
    by simp
  ultimately show ?thesis by blast
qed

subsection \<open>Hop fields\<close>

text \<open>
  C3, as stated, fails: \<open>hop_limit\<close> reads the keyword argument \<open>hop_limit\<close> and
  \<open>hop_start\<close> reads the keyword argument \<open>hop_start\<close>.  With no override and a per-call
  \<open>hop_limit\<close> of 5 the packet has \<open>hop_limit = 5\<close> and \<open>hop_start = 3\<close>.
\<close>

theorem hop_start_differs_counterexample:
  "fst (generate_mesh_packet test_collaborators text_hi
          \<lparr>kw_use_config = Some True, kw_overrides = Some no_overrides, kw_to = None,
           kw_want_ack = None, kw_want_response = None, kw_hop_limit = Some (Some 5),
           kw_hop_start = None\<rparr> test_state)
   = Inr \<lparr>se_packet =
            \<lparr>mp_id = 42, mp_from = 2712847316, mp_to = 4294967295, mp_want_ack = False,
             mp_channel = 8, mp_hop_limit = 5, mp_hop_start = 3,
             mp_decoded = None, mp_encrypted = Some ''ih''\<rparr>,
          se_channel_id = ''LongFast'', se_gateway_id = ''!a1b2c3d4''\<rparr>"
  by code_simp

lemma generate_mesh_packet_hops:
  assumes "generate_mesh_packet col em kw s = (Inr env, s2)"
  shows "\<exists>ov. kw_overrides kw = Some ov
        \<and> or_int (ov_hop_limit ov) (kwargs_get (kw_hop_limit kw) (Some 3))
            = Some (mp_hop_limit (se_packet env))
        \<and> or_int (ov_hop_limit ov) (kwargs_get (kw_hop_start kw) (Some 3))
            = Some (mp_hop_start (se_packet env))"
proof -
  from generate_mesh_packet_Inr[OF assms] obtain r s1 where
    r: "resolve col kw s = (Inr r, s1)"
    and f: "fill_packet col em kw r (get_message_id col (message_id s1)) = Inr env" by blast
  from fill_packet_Inr[OF f] obtain from_id to hop_limit hop_start mp where
    hl: "uint32_field (or_int (ov_hop_limit (r_overrides r)) (kwargs_get (kw_hop_limit kw) (Some 3))) = Inr hop_limit"
    and hs: "uint32_field (or_int (ov_hop_limit (r_overrides r)) (kwargs_get (kw_hop_start kw) (Some 3))) = Inr hop_start"
    and b: "set_body col (r_channel_id r) (r_channel_key r)
             (MeshPacket\<lparr>mp_id := uint (get_message_id col (message_id s1)),
                mp_from := from_id, mp_to := to,
                mp_want_ack := kwargs_get (kw_want_ack kw) False,
                mp_channel := uint (generate_hash col (r_channel_id r) (r_channel_key r)),
                mp_hop_limit := hop_limit, mp_hop_start := hop_start\<rparr>) em = Inr mp"
    and e: "env = \<lparr>se_packet = mp, se_channel_id = r_channel_id r,
                    se_gateway_id = r_gateway_id r\<rparr>"
    by blast
  from set_body_Inr[OF b] have "mp_hop_limit mp = hop_limit \<and> mp_hop_start mp = hop_start"
    by (cases "r_channel_key r = []") auto
  with e uint32_field_Inr[OF hl] uint32_field_Inr[OF hs] resolve_node_id[OF r]
  show ?thesis by simp
qed

text \<open>
  C3, amended.  In a packet that \<open>generate_mesh_packet\<close> returns, \<open>hop_limit\<close> is the
  override's hop limit when that is set and not 0, else the per-call \<open>hop_limit\<close>, else 3;
  \<open>hop_start\<close> is the override's hop limit when that is set and not 0, else the per-call
  \<open>hop_start\<close>, else 3.  The two fields are equal whenever the override is set and not 0,
  and whenever the two per-call arguments agree; with neither given (as in every send of
  the command line) both are 3.
\<close>

theorem hop_fields:
  assumes "generate_mesh_packet col encoded_message kw s = (Inr env, s2)"
  shows "\<exists>ov. kw_overrides kw = Some ov
        \<and> Some (mp_hop_limit (se_packet env))
            = or_int (ov_hop_limit ov) (kwargs_get (kw_hop_limit kw) (Some 3))
        \<and> Some (mp_hop_start (se_packet env))
            = or_int (ov_hop_limit ov) (kwargs_get (kw_hop_start kw) (Some 3))
        \<and> (\<forall>h. ov_hop_limit ov = Some h \<and> h \<noteq> 0 \<longrightarrow>
               mp_hop_limit (se_packet env) = h \<and> mp_hop_start (se_packet env) = h)
        \<and> (kw_hop_limit kw = kw_hop_start kw \<longrightarrow>
               mp_hop_start (se_packet env) = mp_hop_limit (se_packet env))
        \<and> (kw_hop_limit kw = None \<and> kw_hop_start kw = None
             \<and> (ov_hop_limit ov = None \<or> ov_hop_limit ov = Some 0) \<longrightarrow>
               mp_hop_limit (se_packet env) = 3 \<and> mp_hop_start (se_packet env) = 3)"
proof -
  from generate_mesh_packet_hops[OF assms] obtain ov where ov: "kw_overrides kw = Some ov"
    and hl: "or_int (ov_hop_limit ov) (kwargs_get (kw_hop_limit kw) (Some 3))
            = Some (mp_hop_limit (se_packet env))"
    and hs: "or_int (ov_hop_limit ov) (kwargs_get (kw_hop_start kw) (Some 3))
            = Some (mp_hop_start (se_packet env))" by blast
  have 1: "\<forall>h. ov_hop_limit ov = Some h \<and> h \<noteq> 0 \<longrightarrow>
               mp_hop_limit (se_packet env) = h \<and> mp_hop_start (se_packet env) = h"
    using hl hs by (auto simp: or_int_def)
  have 2: "kw_hop_limit kw = kw_hop_start kw \<longrightarrow>
               mp_hop_start (se_packet env) = mp_hop_limit (se_packet env)"
    using hl hs by auto
  have 3: "kw_hop_limit kw = None \<and> kw_hop_start kw = None
             \<and> (ov_hop_limit ov = None \<or> ov_hop_limit ov = Some 0) \<longrightarrow>
               mp_hop_limit (se_packet env) = 3 \<and> mp_hop_start (se_packet env) = 3"
    using hl hs by (auto simp: or_int_def kwargs_get_def)
  from ov hl hs 1 2 3 show ?thesis by simp
qed

theorem hop_fields_witness:
  "generate_mesh_packet test_collaborators text_hi
     (cli_kwargs (no_overrides\<lparr>ov_hop_limit := Some 7\<rparr>)) test_state
   = (Inr \<lparr>se_packet =
             \<lparr>mp_id = 42, mp_from = 2712847316, mp_to = 4294967295, mp_want_ack = False,
              mp_channel = 8, mp_hop_limit = 7, mp_hop_start = 7,
              mp_decoded = None, mp_encrypted = Some ''ih''\<rparr>,
           se_channel_id = ''LongFast'', se_gateway_id = ''!a1b2c3d4''\<rparr>,
      test_state\<lparr>message_id := 42\<rparr>)
   \<and> Some (7::int) = or_int (ov_hop_limit (no_overrides\<lparr>ov_hop_limit := Some 7\<rparr>))
                       (kwargs_get (kw_hop_limit (cli_kwargs (no_overrides\<lparr>ov_hop_limit := Some 7\<rparr>)))
                          (Some 3))"
proof -
  have 1: "generate_mesh_packet test_collaborators text_hi
     (cli_kwargs (no_overrides\<lparr>ov_hop_limit := Some 7\<rparr>)) test_state
   = (Inr \<lparr>se_packet =
             \<lparr>mp_id = 42, mp_from = 2712847316, mp_to = 4294967295, mp_want_ack = False,
              mp_channel = 8, mp_hop_limit = 7, mp_hop_start = 7,
              mp_decoded = None, mp_encrypted = Some ''ih''\<rparr>,
           se_channel_id = ''LongFast'', se_gateway_id = ''!a1b2c3d4''\<rparr>,
      test_state\<lparr>message_id := 42\<rparr>)"
    by code_simp
  from hop_fields[OF 1] 1 show ?thesis by (auto simp: cli_kwargs_def)
qed

subsection \<open>Destination\<close>

lemma set_body_succeeds:
  assumes "k = [] \<or> (\<forall>p. \<exists>b. encrypt_packet col cid k p em = Inr b)"
  shows "\<exists>mp. set_body col cid k p em = Inr mp \<and> mp_from mp = mp_from p \<and> mp_to mp = mp_to p"
proof (cases "k = []")
  case True
  then show ?thesis by (simp add: set_body_def)
next
  case False
  with assms obtain b where "encrypt_packet col cid k p em = Inr b" by blast
  with False show ?thesis by (simp add: set_body_def)
qed

lemma generate_mesh_packet_succeeds:
  assumes r: "resolve col kw s = (Inr r, s1)"
      and nr: "r_from_id r \<notin> set reserved_ids"
      and f: "uint32_field (Some (r_from_id r)) = Inr from_id"
      and d: "uint32_field (r_destination r) = Inr to"
      and hl: "uint32_field (or_int (ov_hop_limit (r_overrides r))
                 (kwargs_get (kw_hop_limit kw) (Some 3))) = Inr hop_limit"
      and hs: "uint32_field (or_int (ov_hop_limit (r_overrides r))
                 (kwargs_get (kw_hop_start kw) (Some 3))) = Inr hop_start"
      and e: "r_channel_key r = []
              \<or> (\<forall>p. \<exists>b. encrypt_packet col (r_channel_id r) (r_channel_key r) p em = Inr b)"
  shows "\<exists>env. generate_mesh_packet col em kw s
                 = (Inr env, s1\<lparr>message_id := get_message_id col (message_id s1)\<rparr>)
             \<and> mp_from (se_packet env) = r_from_id r \<and> mp_to (se_packet env) = to
             \<and> se_gateway_id env = r_gateway_id r"
proof -
  let ?mid = "get_message_id col (message_id s1)"
  let ?p = "MeshPacket\<lparr>mp_id := uint ?mid, mp_from := from_id, mp_to := to,
              mp_want_ack := kwargs_get (kw_want_ack kw) False,
              mp_channel := uint (generate_hash col (r_channel_id r) (r_channel_key r)),
              mp_hop_limit := hop_limit, mp_hop_start := hop_start\<rparr>"
  from set_body_succeeds[OF e, of ?p] obtain mp where
    b: "set_body col (r_channel_id r) (r_channel_key r) ?p em = Inr mp"
    and m: "mp_from mp = from_id" "mp_to mp = to" by auto
  from uint32_field_Inr[OF d] have d': "r_destination r = Some to"
    and d'': "uint32_field (Some to) = Inr to" by (simp_all add: uint32_field_def)
  have "fill_packet col em kw r ?mid
        = Inr \<lparr>se_packet = mp, se_channel_id = r_channel_id r, se_gateway_id = r_gateway_id r\<rparr>"
    by (simp add: fill_packet_def Let_def f d' d'' hl hs b int_of_def)
  with r nr m uint32_field_Inr[OF f] show ?thesis
    by (simp add: generate_mesh_packet_def Let_def)
qed

text \<open>
  C8.  The reserved test is applied to \<open>from_id\<close> only.  A send whose resolved
  destination is a reserved value, 4294967295 (broadcast) among them, and whose source
  identifier, hop values and encryption are in order returns a packet, and the packet's
  \<open>to\<close> field is that destination.
\<close>

theorem reserved_destination_is_accepted:
  assumes "resolve col kw s = (Inr r, s1)"
      and "r_destination r = Some d" and "d \<in> set reserved_ids"
      and "r_from_id r \<notin> set reserved_ids"
      and "uint32_field (Some (r_from_id r)) = Inr from_id"
      and "uint32_field (or_int (ov_hop_limit (r_overrides r))
             (kwargs_get (kw_hop_limit kw) (Some 3))) = Inr hop_limit"
      and "uint32_field (or_int (ov_hop_limit (r_overrides r))
             (kwargs_get (kw_hop_start kw) (Some 3))) = Inr hop_start"
      and "r_channel_key r = []
           \<or> (\<forall>p. \<exists>b. encrypt_packet col (r_channel_id r) (r_channel_key r) p encoded_message
                        = Inr b)"
  shows "(\<exists>env. generate_mesh_packet col encoded_message kw s
                 = (Inr env, s1\<lparr>message_id := get_message_id col (message_id s1)\<rparr>)
             \<and> mp_to (se_packet env) = d)
       \<and> 4294967295 \<in> set reserved_ids"
proof -
  from assms(3) have "uint32_field (Some d) = Inr d"
    by (auto simp: reserved_ids_def uint32_field_def)
  with assms(2) have "uint32_field (r_destination r) = Inr d" by simp
  from generate_mesh_packet_succeeds[OF assms(1) assms(4) assms(5) this assms(6) assms(7) assms(8)]
  show ?thesis by (auto simp: reserved_ids_def)
qed

theorem reserved_destination_is_accepted_witness:
  "resolve test_collaborators (cli_kwargs (no_overrides\<lparr>ov_destination := Some 4294967295\<rparr>))
     test_state
   = (Inr \<lparr>r_overrides = no_overrides\<lparr>ov_destination := Some 4294967295\<rparr>,
            r_node_id = ''!a1b2c3d4'', r_channel_id = ''LongFast'', r_channel_key = ''AQ=='',
            r_gateway_id = ''!a1b2c3d4'', r_from_id = 2712847316,
            r_destination = Some 4294967295\<rparr>, test_state)
   \<and> (4294967295 :: int) \<in> set reserved_ids
   \<and> (2712847316 :: int) \<notin> set reserved_ids
   \<and> uint32_field (Some 2712847316) = Inr 2712847316
   \<and> uint32_field (Some 3) = Inr 3
   \<and> (\<forall>p. \<exists>b. encrypt_packet test_collaborators ''LongFast'' ''AQ=='' p text_hi = Inr b)
   \<and> (\<exists>env. generate_mesh_packet test_collaborators text_hi
               (cli_kwargs (no_overrides\<lparr>ov_destination := Some 4294967295\<rparr>)) test_state
             = (Inr env, test_state\<lparr>message_id := 42\<rparr>)
           \<and> mp_to (se_packet env) = 4294967295)"
proof -
  let ?ov = "no_overrides\<lparr>ov_destination := Some 4294967295\<rparr>"
  let ?r = "\<lparr>r_overrides = ?ov,
            r_node_id = ''!a1b2c3d4'', r_channel_id = ''LongFast'', r_channel_key = ''AQ=='',
            r_gateway_id = ''!a1b2c3d4'', r_from_id = 2712847316,
            r_destination = Some 4294967295\<rparr>"
  have 1: "resolve test_collaborators (cli_kwargs ?ov) test_state = (Inr ?r, test_state)"
    by code_simp
  have 2: "r_destination ?r = Some 4294967295" by simp
  have 3: "(4294967295 :: int) \<in> set reserved_ids" by (simp add: reserved_ids_def)
  have 4: "r_from_id ?r \<notin> set reserved_ids" by (simp add: reserved_ids_def)
  have 5: "uint32_field (Some (r_from_id ?r)) = Inr 2712847316" by (simp add: uint32_field_def)
  have 6: "uint32_field (or_int (ov_hop_limit (r_overrides ?r))
             (kwargs_get (kw_hop_limit (cli_kwargs ?ov)) (Some 3))) = Inr 3"
    by (simp add: uint32_field_def or_int_def kwargs_get_def cli_kwargs_def no_overrides_def)
  have 7: "uint32_field (or_int (ov_hop_limit (r_overrides ?r))
             (kwargs_get (kw_hop_start (cli_kwargs ?ov)) (Some 3))) = Inr 3"
    by (simp add: uint32_field_def or_int_def kwargs_get_def cli_kwargs_def no_overrides_def)
  have 8: "\<forall>p. \<exists>b. encrypt_packet test_collaborators ''LongFast'' ''AQ=='' p text_hi = Inr b"
    by (simp add: test_collaborators_def)
  then have 9: "r_channel_key ?r = []
           \<or> (\<forall>p. \<exists>b. encrypt_packet test_collaborators (r_channel_id ?r) (r_channel_key ?r) p text_hi
                        = Inr b)" by simp
  have 10: "get_message_id test_collaborators (message_id test_state) = 42"
    by (simp add: test_collaborators_def test_state_def)
  have 11: "uint32_field (Some 3) = Inr 3" by (simp add: uint32_field_def)
  from reserved_destination_is_accepted[OF 1 2 3 4 5 6 7 9] 10
  have "\<exists>env. generate_mesh_packet test_collaborators text_hi (cli_kwargs ?ov) test_state
             = (Inr env, test_state\<lparr>message_id := 42\<rparr>)
           \<and> mp_to (se_packet env) = 4294967295" by simp
  with 1 3 4 5 8 11 show ?thesis by simp
qed

subsection \<open>Sigils inside the identifier\<close>

text \<open>
  C10, as stated, fails: \<open>!0!1\<close> begins with the sigil and is the hexadecimal string
  \<open>01\<close> once every \<open>!\<close> is removed, but its value 1 is reserved and the send raises.
\<close>

theorem stray_sigil_reserved_counterexample:
  "startswith ''!0!1'' ''!''
   \<and> hex_string (replace_empty ''!0!1'' CHR ''!'')
   \<and> fst (generate_mesh_packet test_collaborators text_hi
            (cli_kwargs (no_overrides\<lparr>ov_node_id := Some ''!0!1''\<rparr>)) test_state)
      = Inl (ValueError_reserved 1)"
  by code_simp

lemma foldl_hex_nonneg:
  "0 \<le> acc \<Longrightarrow> set s \<subseteq> set hex_digits \<Longrightarrow>
   0 \<le> foldl (\<lambda>a c. a * 16 + hex_digit_value c) acc s"
proof (induction s arbitrary: acc)
  case Nil
  then show ?case by simp
next
  case (Cons c cs)
  then have "c \<in> set hex_digits" by simp
  then have "0 \<le> hex_digit_value c" by (rule hex_digit_facts)
  with Cons.prems have "0 \<le> acc * 16 + hex_digit_value c" by simp
  with Cons show ?case by simp
qed

lemma hex_value_nonneg: "hex_string s \<Longrightarrow> 0 \<le> hex_value s"
  by (simp add: hex_string_def hex_value_def foldl_hex_nonneg)

lemma resolve_from_hex:
  assumes "kw_overrides kw = Some ov"
      and "startswith (or_str (ov_node_id ov) bi) ''!''"
      and "hex_string (replace_empty (or_str (ov_node_id ov) bi) CHR ''!'')"
  shows "\<exists>r. resolve_from kw bi bc bk bd = Inr r \<and> r_node_id r = or_str (ov_node_id ov) bi
           \<and> r_from_id r = hex_value (replace_empty (or_str (ov_node_id ov) bi) CHR ''!'')"
  using assms(1,2) int_of_str_hex[OF assms(3)]
  by (simp add: resolve_from_def Let_def)

lemma resolve_hex:
  assumes "kw_overrides kw = Some ov"
      and "if kwargs_get (kw_use_config kw) False
           then get_config col s = (Inr config, s1) \<and> configured = cfg_nodeinfo_id config
           else s1 = s \<and> configured = cl_node_id (client_module s)"
      and "startswith (or_str (ov_node_id ov) configured) ''!''"
      and "hex_string (replace_empty (or_str (ov_node_id ov) configured) CHR ''!'')"
  shows "\<exists>r. resolve col kw s = (Inr r, s1) \<and> r_node_id r = or_str (ov_node_id ov) configured
           \<and> r_from_id r = hex_value (replace_empty (or_str (ov_node_id ov) configured) CHR ''!'')"
proof (cases "kwargs_get (kw_use_config kw) False")
  case True
  with assms(2) have g: "get_config col s = (Inr config, s1)"
    and c: "configured = cfg_nodeinfo_id config" by simp_all
  from resolve_from_hex[OF assms(1) assms(3) assms(4), of "cfg_channel_preset config"
      "cfg_channel_key config" "cfg_message_destination_id config"]
  show ?thesis using True g by (auto simp: resolve_def c)
next
  case False
  with assms(2) have s1: "s1 = s" and c: "configured = cl_node_id (client_module s)" by simp_all
  from resolve_from_hex[OF assms(1) assms(3) assms(4), of "cl_channel (client_module s)"
      "cl_key (client_module s)" "cl_destination_id (client_module s)"]
  show ?thesis using False by (auto simp: resolve_def Let_def c s1)
qed

text \<open>
  C10, amended.  Only the first character is tested for \<open>!\<close>, and every \<open>!\<close> is removed
  before the hexadecimal parse.  So for a resolved identifier that begins with \<open>!\<close> and
  whose characters without any \<open>!\<close> form a valid hexadecimal string, resolution succeeds
  and \<open>from_id\<close> is the value of that string; when the value is not reserved and below
  \<open>2^32\<close>, and the destination, the hop values and the encryption are in order,
  \<open>generate_mesh_packet\<close> returns a packet whose \<open>from\<close> field is that value.
\<close>

theorem stray_sigils_are_removed:
  assumes "kw_overrides kw = Some ov"
      and "if kwargs_get (kw_use_config kw) False
           then get_config col s = (Inr config, s1) \<and> configured = cfg_nodeinfo_id config
           else s1 = s \<and> configured = cl_node_id (client_module s)"
      and "nid = or_str (ov_node_id ov) configured"
      and "startswith nid ''!''"
      and "hex_string (replace_empty nid CHR ''!'')"
  shows "\<exists>r. resolve col kw s = (Inr r, s1) \<and> r_node_id r = nid
           \<and> r_from_id r = hex_value (replace_empty nid CHR ''!'')
           \<and> (hex_value (replace_empty nid CHR ''!'') \<notin> set reserved_ids
                \<and> hex_value (replace_empty nid CHR ''!'') < 2 ^ 32
                \<and> (\<exists>to. uint32_field (r_destination r) = Inr to)
                \<and> (\<exists>hop_limit. uint32_field (or_int (ov_hop_limit ov)
                       (kwargs_get (kw_hop_limit kw) (Some 3))) = Inr hop_limit)
                \<and> (\<exists>hop_start. uint32_field (or_int (ov_hop_limit ov)
                       (kwargs_get (kw_hop_start kw) (Some 3))) = Inr hop_start)
                \<and> (r_channel_key r = []
                     \<or> (\<forall>p. \<exists>b. encrypt_packet col (r_channel_id r) (r_channel_key r) p
                                    encoded_message = Inr b))
              \<longrightarrow> (\<exists>env. generate_mesh_packet col encoded_message kw s
                           = (Inr env, s1\<lparr>message_id := get_message_id col (message_id s1)\<rparr>)
                       \<and> mp_from (se_packet env) = hex_value (replace_empty nid CHR ''!'')))"
proof -
  from resolve_hex[OF assms(1) assms(2) assms(4)[unfolded assms(3)] assms(5)[unfolded assms(3)]]
  obtain r where r: "resolve col kw s = (Inr r, s1)" and n: "r_node_id r = nid"
    and v: "r_from_id r = hex_value (replace_empty nid CHR ''!'')"
    by (auto simp: assms(3))
  from resolve_node_id[OF r] assms(1) have ov: "r_overrides r = ov" by simp
  have nonneg: "0 \<le> hex_value (replace_empty nid CHR ''!'')"
    using assms(5) by (rule hex_value_nonneg)
  {
    assume nr: "hex_value (replace_empty nid CHR ''!'') \<notin> set reserved_ids"
      and lt: "hex_value (replace_empty nid CHR ''!'') < 2 ^ 32"
      and d: "\<exists>to. uint32_field (r_destination r) = Inr to"
      and hl: "\<exists>hop_limit. uint32_field (or_int (ov_hop_limit ov)
                       (kwargs_get (kw_hop_limit kw) (Some 3))) = Inr hop_limit"
      and hs: "\<exists>hop_start. uint32_field (or_int (ov_hop_limit ov)
                       (kwargs_get (kw_hop_start kw) (Some 3))) = Inr hop_start"
      and e: "r_channel_key r = []
                     \<or> (\<forall>p. \<exists>b. encrypt_packet col (r_channel_id r) (r_channel_key r) p
                                    encoded_message = Inr b)"
    from d hl hs obtain to hop_limit hop_start where
      d': "uint32_field (r_destination r) = Inr to"
      and hl': "uint32_field (or_int (ov_hop_limit (r_overrides r))
                       (kwargs_get (kw_hop_limit kw) (Some 3))) = Inr hop_limit"
      and hs': "uint32_field (or_int (ov_hop_limit (r_overrides r))
                       (kwargs_get (kw_hop_start kw) (Some 3))) = Inr hop_start"
      unfolding ov by blast
    have f: "uint32_field (Some (r_from_id r)) = Inr (r_from_id r)"
      using nonneg lt by (simp add: uint32_field_def v)
    have nr': "r_from_id r \<notin> set reserved_ids" using nr by (simp add: v)
    from generate_mesh_packet_succeeds[OF r nr' f d' hl' hs' e]
    have "\<exists>env. generate_mesh_packet col encoded_message kw s
                           = (Inr env, s1\<lparr>message_id := get_message_id col (message_id s1)\<rparr>)
                       \<and> mp_from (se_packet env) = hex_value (replace_empty nid CHR ''!'')"
      by (auto simp: v)
  }
  with r n v show ?thesis by blast
qed


theorem stray_sigils_are_removed_witness:
  "startswith ''!a1!b2'' ''!''
   \<and> hex_string (replace_empty ''!a1!b2'' CHR ''!'')
   \<and> hex_value (replace_empty ''!a1!b2'' CHR ''!'') = 41394
   \<and> (\<exists>env. generate_mesh_packet test_collaborators text_hi
               (cli_kwargs (no_overrides\<lparr>ov_node_id := Some ''!a1!b2''\<rparr>)) test_state
             = (Inr env, test_state\<lparr>message_id := 42\<rparr>)
           \<and> mp_from (se_packet env) = 41394)"
proof -
  let ?ov = "no_overrides\<lparr>ov_node_id := Some ''!a1!b2''\<rparr>"
  let ?kw = "cli_kwargs ?ov"
  let ?r = "\<lparr>r_overrides = ?ov, r_node_id = ''!a1!b2'', r_channel_id = ''LongFast'',
             r_channel_key = ''AQ=='', r_gateway_id = ''!a1!b2'', r_from_id = 41394,
             r_destination = Some 4294967295\<rparr>"
  have 1: "kw_overrides ?kw = Some ?ov" by (simp add: cli_kwargs_def)
  have 2: "if kwargs_get (kw_use_config ?kw) False
           then get_config test_collaborators test_state = (Inr test_config, test_state)
                \<and> ''!a1b2c3d4'' = cfg_nodeinfo_id test_config
           else test_state = test_state \<and> ''!a1b2c3d4'' = cl_node_id (client_module test_state)"
    by (simp add: get_config_def test_state_def cli_kwargs_def kwargs_get_def test_config_def)
  have 3: "''!a1!b2'' = or_str (ov_node_id ?ov) ''!a1b2c3d4''" by (simp add: or_str_def)
  have 4: "startswith ''!a1!b2'' ''!''" by (simp add: startswith_def)
  have 5: "hex_string (replace_empty ''!a1!b2'' CHR ''!'')" by code_simp
  have v: "hex_value (replace_empty ''!a1!b2'' CHR ''!'') = 41394" by code_simp
  have r: "resolve test_collaborators ?kw test_state = (Inr ?r, test_state)" by code_simp
  have m: "get_message_id test_collaborators (message_id test_state) = 42"
    by (simp add: test_collaborators_def test_state_def)
  from stray_sigils_are_removed[OF 1 2 3 4 5, of text_hi] obtain r' where
    r': "resolve test_collaborators ?kw test_state = (Inr r', test_state)"
    and imp: "hex_value (replace_empty ''!a1!b2'' CHR ''!'') \<notin> set reserved_ids
                \<and> hex_value (replace_empty ''!a1!b2'' CHR ''!'') < 2 ^ 32
                \<and> (\<exists>to. uint32_field (r_destination r') = Inr to)
                \<and> (\<exists>hop_limit. uint32_field (or_int (ov_hop_limit ?ov)
                       (kwargs_get (kw_hop_limit ?kw) (Some 3))) = Inr hop_limit)
                \<and> (\<exists>hop_start. uint32_field (or_int (ov_hop_limit ?ov)
                       (kwargs_get (kw_hop_start ?kw) (Some 3))) = Inr hop_start)
                \<and> (r_channel_key r' = []
                     \<or> (\<forall>p. \<exists>b. encrypt_packet test_collaborators (r_channel_id r')
                                    (r_channel_key r') p text_hi = Inr b))
              \<longrightarrow> (\<exists>env. generate_mesh_packet test_collaborators text_hi ?kw test_state
                           = (Inr env, test_state\<lparr>message_id :=
                                get_message_id test_collaborators (message_id test_state)\<rparr>)
                       \<and> mp_from (se_packet env) = hex_value (replace_empty ''!a1!b2'' CHR ''!''))"
    by blast
  from r r' have eq: "r' = ?r" by simp
  have h1: "hex_value (replace_empty ''!a1!b2'' CHR ''!'') \<notin> set reserved_ids"
    by (simp add: v reserved_ids_def)
  have h2: "hex_value (replace_empty ''!a1!b2'' CHR ''!'') < 2 ^ 32" by (simp add: v)
  have h3: "\<exists>to. uint32_field (r_destination r') = Inr to"
    by (simp add: eq uint32_field_def)
  have h4: "\<exists>hop_limit. uint32_field (or_int (ov_hop_limit ?ov)
                       (kwargs_get (kw_hop_limit ?kw) (Some 3))) = Inr hop_limit"
    by (simp add: uint32_field_def or_int_def kwargs_get_def cli_kwargs_def no_overrides_def)
  have h5: "\<exists>hop_start. uint32_field (or_int (ov_hop_limit ?ov)
                       (kwargs_get (kw_hop_start ?kw) (Some 3))) = Inr hop_start"
    by (simp add: uint32_field_def or_int_def kwargs_get_def cli_kwargs_def no_overrides_def)
  have h6: "r_channel_key r' = []
                     \<or> (\<forall>p. \<exists>b. encrypt_packet test_collaborators (r_channel_id r')
                                    (r_channel_key r') p text_hi = Inr b)"
    by (simp add: eq test_collaborators_def)
  from imp h1 h2 h3 h4 h5 h6
  have "\<exists>env. generate_mesh_packet test_collaborators text_hi ?kw test_state
                 = (Inr env, test_state\<lparr>message_id := 42\<rparr>)
             \<and> mp_from (se_packet env) = 41394"
    unfolding m v by blast
  with 4 5 v show ?thesis by blast
qed

subsection \<open>Errors at the publish boundary\<close>


lemma publish_message_total:
  "\<exists>s' out. publish_message col pf portnum kw s = Inr (s', out)"
  by (simp add: publish_message_def split: prod.splits option.splits)






subsection \<open>Facts about the topic\<close>

lemma publish_topic_Inr:
  assumes "publish_topic col kw s = (Inr topic, s1)"
  shows "\<exists>ov. kw_overrides kw = Some ov
         \<and> (if kwargs_get (kw_use_config kw) False
             then \<exists>config s0. get_config col s = (Inr config, s0)
                    \<and> topic = topic_of (cfg_mqtt_root_topic config)
                                (or_str (ov_channel_preset ov) (cfg_channel_preset config))
                                (or_str (ov_node_id ov) (cfg_nodeinfo_id config))
                    \<and> s1 = s0\<lparr>config_global := Some (config
                           \<lparr>cfg_nodeinfo_id := or_str (ov_node_id ov) (cfg_nodeinfo_id config),
                            cfg_channel_preset :=
                              or_str (ov_channel_preset ov) (cfg_channel_preset config)\<rparr>)\<rparr>
             else topic = topic_of (cl_root_topic (client_module s))
                            (or_str (ov_channel_preset ov) (cl_channel (client_module s)))
                            (or_str (ov_node_id ov) (cl_node_id (client_module s)))
                  \<and> s1 = s\<lparr>client_module := (client_module s)
                           \<lparr>cl_node_id := or_str (ov_node_id ov) (cl_node_id (client_module s)),
                            cl_channel :=
                              or_str (ov_channel_preset ov) (cl_channel (client_module s))\<rparr>\<rparr>)"
  using assms
  by (auto simp: publish_topic_def Let_def split: if_splits prod.splits sum.splits option.splits)

lemma publish_message_Publish:
  assumes "publish_message col pf portnum kw s = Inr (s', out)"
      and "Publish topic payload \<in> set out"
  shows "\<exists>s1 s2. publish_topic col kw s = (Inr topic, s1) \<and> pf portnum kw s1 = (Inr payload, s2)"
  using assms
  by (auto simp: publish_message_def publish_message_try_def Let_def
           split: prod.splits sum.splits option.splits)

lemma generate_mesh_packet_envelope:
  assumes "generate_mesh_packet col em kw s = (Inr env, s2)"
  shows "\<exists>r s1. resolve col kw s = (Inr r, s1) \<and> se_channel_id env = r_channel_id r
           \<and> se_gateway_id env = lower (r_node_id r)"
proof -
  from generate_mesh_packet_Inr[OF assms] obtain r s1 where
    r: "resolve col kw s = (Inr r, s1)"
    and f: "fill_packet col em kw r (get_message_id col (message_id s1)) = Inr env" by blast
  from fill_packet_Inr[OF f] have "se_channel_id env = r_channel_id r"
    "se_gateway_id env = r_gateway_id r" by auto
  with r resolve_node_id[OF r] show ?thesis by auto
qed

lemma resolve_names:
  assumes "resolve col kw s = (Inr r, s1)" and "kw_overrides kw = Some ov"
  shows "if kwargs_get (kw_use_config kw) False
         then \<exists>config. get_config col s = (Inr config, s1)
                \<and> r_node_id r = or_str (ov_node_id ov) (cfg_nodeinfo_id config)
                \<and> r_channel_id r = or_str (ov_channel_preset ov) (cfg_channel_preset config)
         else r_node_id r = or_str (ov_node_id ov) (cl_node_id (client_module s))
            \<and> r_channel_id r = or_str (ov_channel_preset ov) (cl_channel (client_module s))"
  using resolve_Inr[OF assms(1)] assms(2)
  by (auto split: if_splits dest!: resolve_from_Inr)

lemma create_text_payload_Inr:
  assumes "create_text_payload col message portnum kw s = (Inr env, s2)"
  shows "\<exists>em. generate_mesh_packet col em kw s = (Inr env, s2)"
  using assms
  by (auto simp: create_text_payload_def create_payload_def split: option.splits)

lemma published_topic:
  assumes "publish_message col payload_function portnum kw s = Inr (s', out)"
      and "Publish topic payload \<in> set out"
  shows "\<exists>ov root preset nid.
           kw_overrides kw = Some ov
         \<and> topic = root @ ''/2/e/'' @ preset @ ''/'' @ lower nid
         \<and> (if kwargs_get (kw_use_config kw) False
             then \<exists>config s0. get_config col s = (Inr config, s0)
                    \<and> root = cfg_mqtt_root_topic config
                    \<and> preset = or_str (ov_channel_preset ov) (cfg_channel_preset config)
                    \<and> nid = or_str (ov_node_id ov) (cfg_nodeinfo_id config)
             else root = cl_root_topic (client_module s)
                \<and> preset = or_str (ov_channel_preset ov) (cl_channel (client_module s))
                \<and> nid = or_str (ov_node_id ov) (cl_node_id (client_module s)))
         \<and> (\<forall>message. payload_function = create_text_payload col message \<longrightarrow>
                se_channel_id payload = preset \<and> se_gateway_id payload = lower nid)"
proof -
  from publish_message_Publish[OF assms] obtain s1 s2 where
    t: "publish_topic col kw s = (Inr topic, s1)"
    and p: "payload_function portnum kw s1 = (Inr payload, s2)" by blast
  from publish_topic_Inr[OF t] obtain ov where ov: "kw_overrides kw = Some ov"
    and c: "if kwargs_get (kw_use_config kw) False
             then \<exists>config s0. get_config col s = (Inr config, s0)
                    \<and> topic = topic_of (cfg_mqtt_root_topic config)
                                (or_str (ov_channel_preset ov) (cfg_channel_preset config))
                                (or_str (ov_node_id ov) (cfg_nodeinfo_id config))
                    \<and> s1 = s0\<lparr>config_global := Some (config
                           \<lparr>cfg_nodeinfo_id := or_str (ov_node_id ov) (cfg_nodeinfo_id config),
                            cfg_channel_preset :=
                              or_str (ov_channel_preset ov) (cfg_channel_preset config)\<rparr>)\<rparr>
             else topic = topic_of (cl_root_topic (client_module s))
                            (or_str (ov_channel_preset ov) (cl_channel (client_module s)))
                            (or_str (ov_node_id ov) (cl_node_id (client_module s)))
                  \<and> s1 = s\<lparr>client_module := (client_module s)
                           \<lparr>cl_node_id := or_str (ov_node_id ov) (cl_node_id (client_module s)),
                            cl_channel :=
                              or_str (ov_channel_preset ov) (cl_channel (client_module s))\<rparr>\<rparr>"
    by blast
  show ?thesis
  proof (cases "kwargs_get (kw_use_config kw) False")
    case True
    with c obtain config s0 where g: "get_config col s = (Inr config, s0)"
      and tp: "topic = topic_of (cfg_mqtt_root_topic config)
                                (or_str (ov_channel_preset ov) (cfg_channel_preset config))
                                (or_str (ov_node_id ov) (cfg_nodeinfo_id config))"
      and s1: "s1 = s0\<lparr>config_global := Some (config
                           \<lparr>cfg_nodeinfo_id := or_str (ov_node_id ov) (cfg_nodeinfo_id config),
                            cfg_channel_preset :=
                              or_str (ov_channel_preset ov) (cfg_channel_preset config)\<rparr>)\<rparr>"
      by auto
    let ?config2 = "config\<lparr>cfg_nodeinfo_id := or_str (ov_node_id ov) (cfg_nodeinfo_id config),
                            cfg_channel_preset :=
                              or_str (ov_channel_preset ov) (cfg_channel_preset config)\<rparr>"
    have link: "se_channel_id payload = or_str (ov_channel_preset ov) (cfg_channel_preset config)
            \<and> se_gateway_id payload = lower (or_str (ov_node_id ov) (cfg_nodeinfo_id config))"
      if "payload_function = create_text_payload col message" for message
    proof -
      from p that create_text_payload_Inr obtain em where
        "generate_mesh_packet col em kw s1 = (Inr payload, s2)" by blast
      from generate_mesh_packet_envelope[OF this] obtain r s3 where
        r: "resolve col kw s1 = (Inr r, s3)" and e: "se_channel_id payload = r_channel_id r"
        "se_gateway_id payload = lower (r_node_id r)" by blast
      have cg: "config_global s1 = Some ?config2" by (simp add: s1)
      from resolve_names[OF r ov] True obtain config' where
        g': "get_config col s1 = (Inr config', s3)"
        and n: "r_node_id r = or_str (ov_node_id ov) (cfg_nodeinfo_id config')"
        "r_channel_id r = or_str (ov_channel_preset ov) (cfg_channel_preset config')" by auto
      from get_config_cases(2)[OF g' cg] have "config' = ?config2" by simp
      with n e show ?thesis by (simp add: or_str_idem)
    qed
    let ?root = "cfg_mqtt_root_topic config"
    let ?preset = "or_str (ov_channel_preset ov) (cfg_channel_preset config)"
    let ?nid = "or_str (ov_node_id ov) (cfg_nodeinfo_id config)"
    have "kw_overrides kw = Some ov
         \<and> topic = ?root @ ''/2/e/'' @ ?preset @ ''/'' @ lower ?nid
         \<and> (if kwargs_get (kw_use_config kw) False
             then \<exists>config s0. get_config col s = (Inr config, s0)
                    \<and> ?root = cfg_mqtt_root_topic config
                    \<and> ?preset = or_str (ov_channel_preset ov) (cfg_channel_preset config)
                    \<and> ?nid = or_str (ov_node_id ov) (cfg_nodeinfo_id config)
             else ?root = cl_root_topic (client_module s)
                \<and> ?preset = or_str (ov_channel_preset ov) (cl_channel (client_module s))
                \<and> ?nid = or_str (ov_node_id ov) (cl_node_id (client_module s)))
         \<and> (\<forall>message. payload_function = create_text_payload col message \<longrightarrow>
                se_channel_id payload = ?preset \<and> se_gateway_id payload = lower ?nid)"
      using ov tp g True link unfolding topic_of_def by auto
    then show ?thesis
      by (intro exI[of _ ov] exI[of _ ?root] exI[of _ ?preset] exI[of _ ?nid])
  next
    case False
    with c have tp: "topic = topic_of (cl_root_topic (client_module s))
                            (or_str (ov_channel_preset ov) (cl_channel (client_module s)))
                            (or_str (ov_node_id ov) (cl_node_id (client_module s)))"
      and s1: "s1 = s\<lparr>client_module := (client_module s)
                           \<lparr>cl_node_id := or_str (ov_node_id ov) (cl_node_id (client_module s)),
                            cl_channel :=
                              or_str (ov_channel_preset ov) (cl_channel (client_module s))\<rparr>\<rparr>"
      by auto
    have link: "se_channel_id payload
                  = or_str (ov_channel_preset ov) (cl_channel (client_module s))
            \<and> se_gateway_id payload
                  = lower (or_str (ov_node_id ov) (cl_node_id (client_module s)))"
      if "payload_function = create_text_payload col message" for message
    proof -
      from p that create_text_payload_Inr obtain em where
        "generate_mesh_packet col em kw s1 = (Inr payload, s2)" by blast
      from generate_mesh_packet_envelope[OF this] obtain r s3 where
        r: "resolve col kw s1 = (Inr r, s3)" and e: "se_channel_id payload = r_channel_id r"
        "se_gateway_id payload = lower (r_node_id r)" by blast
      from resolve_names[OF r ov] False have
        "r_node_id r = or_str (ov_node_id ov) (cl_node_id (client_module s1))"
        "r_channel_id r = or_str (ov_channel_preset ov) (cl_channel (client_module s1))" by auto
      with e show ?thesis by (simp add: s1 or_str_idem)
    qed
    let ?root = "cl_root_topic (client_module s)"
    let ?preset = "or_str (ov_channel_preset ov) (cl_channel (client_module s))"
    let ?nid = "or_str (ov_node_id ov) (cl_node_id (client_module s))"
    have "kw_overrides kw = Some ov
         \<and> topic = ?root @ ''/2/e/'' @ ?preset @ ''/'' @ lower ?nid
         \<and> (if kwargs_get (kw_use_config kw) False
             then \<exists>config s0. get_config col s = (Inr config, s0)
                    \<and> ?root = cfg_mqtt_root_topic config
                    \<and> ?preset = or_str (ov_channel_preset ov) (cfg_channel_preset config)
                    \<and> ?nid = or_str (ov_node_id ov) (cfg_nodeinfo_id config)
             else ?root = cl_root_topic (client_module s)
                \<and> ?preset = or_str (ov_channel_preset ov) (cl_channel (client_module s))
                \<and> ?nid = or_str (ov_node_id ov) (cl_node_id (client_module s)))
         \<and> (\<forall>message. payload_function = create_text_payload col message \<longrightarrow>
                se_channel_id payload = ?preset \<and> se_gateway_id payload = lower ?nid)"
      using ov tp False link unfolding topic_of_def by auto
    then show ?thesis
      by (intro exI[of _ ov] exI[of _ ?root] exI[of _ ?preset] exI[of _ ?nid])
  qed
qed

subsection \<open>Write-back of the overrides\<close>

lemma resolve_loaded:
  assumes "config_global s \<noteq> None" and "resolve col kw s = (res, s1)"
  shows "s1 = s"
  using assms
  by (auto simp: resolve_def get_config_def Let_def split: if_splits prod.splits sum.splits option.splits)

lemma generate_mesh_packet_config:
  assumes "config_global s \<noteq> None"
  shows "config_global (snd (generate_mesh_packet col em kw s)) = config_global s"
proof -
  obtain res s1 where r: "resolve col kw s = (res, s1)" by (cases "resolve col kw s") auto
  from resolve_loaded[OF assms r] have "s1 = s" .
  with r show ?thesis
    by (simp add: generate_mesh_packet_def Let_def split: sum.splits)
qed

lemma create_text_payload_config:
  "config_global s \<noteq> None \<Longrightarrow>
   config_global (snd (create_text_payload col message portnum kw s)) = config_global s"
  by (simp add: create_text_payload_def create_payload_def generate_mesh_packet_config
           split: option.splits)

lemma publish_topic_use_config:
  assumes "kwargs_get (kw_use_config kw) False" and "kw_overrides kw = Some ov"
      and "get_config col s = (Inr config, s0)"
  shows "\<exists>topic. publish_topic col kw s
           = (Inr topic, s0\<lparr>config_global := Some (config
                 \<lparr>cfg_nodeinfo_id := or_str (ov_node_id ov) (cfg_nodeinfo_id config),
                  cfg_channel_preset :=
                    or_str (ov_channel_preset ov) (cfg_channel_preset config)\<rparr>)\<rparr>)"
  using assms by (simp add: publish_topic_def Let_def)

lemma publish_message_state:
  assumes "publish_topic col kw s = (Inr topic, s1)"
      and "publish_message col pf portnum kw s = Inr (s', out)"
  shows "s' = snd (pf portnum kw s1)"
  using assms
  by (auto simp: publish_message_def publish_message_try_def Let_def
           split: prod.splits sum.splits option.splits)

lemma resolve_loaded_names:
  assumes "config_global s = Some c" and "kwargs_get (kw_use_config kw) False"
      and "kw_overrides kw = Some ov" and "resolve col kw s = (Inr r, s1)"
  shows "r_node_id r = or_str (ov_node_id ov) (cfg_nodeinfo_id c)
       \<and> r_channel_id r = or_str (ov_channel_preset ov) (cfg_channel_preset c)"
proof -
  from resolve_names[OF assms(4) assms(3)] assms(2) obtain config where
    g: "get_config col s = (Inr config, s1)"
    and n: "r_node_id r = or_str (ov_node_id ov) (cfg_nodeinfo_id config)"
    "r_channel_id r = or_str (ov_channel_preset ov) (cfg_channel_preset config)" by auto
  from get_config_cases(2)[OF g assms(1)] have "config = c" by simp
  with n show ?thesis by simp
qed

text \<open>
  C9.  With \<open>use_config\<close>, \<open>publish_message\<close> stores the resolved node identifier and
  channel name in the configuration object before it builds the topic, and a payload
  function that leaves the loaded configuration alone (as those built on
  \<open>create_payload\<close> do) keeps them there, also when the send fails.  A non-empty
  \<open>node_id\<close> or \<open>channel_preset\<close> override is therefore the configured value afterwards,
  and a later send resolves its own overrides against it.
\<close>

theorem override_is_written_back:
  assumes "kwargs_get (kw_use_config kw) False"
      and "kw_overrides kw = Some ov"
      and "get_config col s = (Inr config, s0)"
      and "\<forall>p k t. config_global t \<noteq> None \<longrightarrow>
                    config_global (snd (payload_function p k t)) = config_global t"
      and "publish_message col payload_function portnum kw s = Inr (s', out)"
  shows "config_global s'
           = Some (config\<lparr>cfg_nodeinfo_id := or_str (ov_node_id ov) (cfg_nodeinfo_id config),
                          cfg_channel_preset :=
                            or_str (ov_channel_preset ov) (cfg_channel_preset config)\<rparr>)
       \<and> (\<forall>n. ov_node_id ov = Some n \<and> n \<noteq> [] \<longrightarrow>
              (\<exists>c. config_global s' = Some c \<and> cfg_nodeinfo_id c = n))
       \<and> (\<forall>p. ov_channel_preset ov = Some p \<and> p \<noteq> [] \<longrightarrow>
              (\<exists>c. config_global s' = Some c \<and> cfg_channel_preset c = p))
       \<and> (\<forall>kw2 ov2 r s2.
              kwargs_get (kw_use_config kw2) False \<and> kw_overrides kw2 = Some ov2
              \<and> resolve col kw2 s' = (Inr r, s2) \<longrightarrow>
              r_node_id r = or_str (ov_node_id ov2) (or_str (ov_node_id ov) (cfg_nodeinfo_id config))
              \<and> r_channel_id r
                  = or_str (ov_channel_preset ov2)
                      (or_str (ov_channel_preset ov) (cfg_channel_preset config)))"
proof -
  let ?c = "config\<lparr>cfg_nodeinfo_id := or_str (ov_node_id ov) (cfg_nodeinfo_id config),
                          cfg_channel_preset :=
                            or_str (ov_channel_preset ov) (cfg_channel_preset config)\<rparr>"
  from publish_topic_use_config[OF assms(1,2,3)] obtain topic where
    t: "publish_topic col kw s = (Inr topic, s0\<lparr>config_global := Some ?c\<rparr>)" by blast
  from publish_message_state[OF t assms(5)]
  have "s' = snd (payload_function portnum kw (s0\<lparr>config_global := Some ?c\<rparr>))" .
  with assms(4) have cg: "config_global s' = Some ?c" by simp
  have 1: "\<forall>n. ov_node_id ov = Some n \<and> n \<noteq> [] \<longrightarrow>
              (\<exists>c. config_global s' = Some c \<and> cfg_nodeinfo_id c = n)"
    by (simp add: cg or_str_def)
  have 2: "\<forall>p. ov_channel_preset ov = Some p \<and> p \<noteq> [] \<longrightarrow>
              (\<exists>c. config_global s' = Some c \<and> cfg_channel_preset c = p)"
    by (simp add: cg or_str_def)
  have 3: "\<forall>kw2 ov2 r s2.
              kwargs_get (kw_use_config kw2) False \<and> kw_overrides kw2 = Some ov2
              \<and> resolve col kw2 s' = (Inr r, s2) \<longrightarrow>
              r_node_id r = or_str (ov_node_id ov2) (or_str (ov_node_id ov) (cfg_nodeinfo_id config))
              \<and> r_channel_id r
                  = or_str (ov_channel_preset ov2)
                      (or_str (ov_channel_preset ov) (cfg_channel_preset config))"
    using resolve_loaded_names[OF cg] by fastforce
  from cg 1 2 3 show ?thesis by blast
qed


theorem override_is_written_back_witness:
  "kwargs_get (kw_use_config (cli_kwargs
       (no_overrides\<lparr>ov_node_id := Some ''!A1B2'', ov_channel_preset := Some ''ShortFast''\<rparr>))) False
   \<and> get_config test_collaborators test_state = (Inr test_config, test_state)
   \<and> cfg_nodeinfo_id test_config = ''!a1b2c3d4''
   \<and> cfg_channel_preset test_config = ''LongFast''
   \<and> (\<exists>s' out. publish_message test_collaborators
                  (create_text_payload test_collaborators (Some ''hi'')) TEXT_MESSAGE_APP
                  (cli_kwargs (no_overrides\<lparr>ov_node_id := Some ''!A1B2'',
                                             ov_channel_preset := Some ''ShortFast''\<rparr>))
                  test_state = Inr (s', out)
          \<and> config_global s'
              = Some (test_config\<lparr>cfg_nodeinfo_id := ''!A1B2'',
                                  cfg_channel_preset := ''ShortFast''\<rparr>))"
proof -
  let ?ov = "no_overrides\<lparr>ov_node_id := Some ''!A1B2'', ov_channel_preset := Some ''ShortFast''\<rparr>"
  let ?kw = "cli_kwargs ?ov"
  let ?pf = "create_text_payload test_collaborators (Some ''hi'')"
  have 1: "kwargs_get (kw_use_config ?kw) False" by (simp add: cli_kwargs_def kwargs_get_def)
  have 2: "kw_overrides ?kw = Some ?ov" by (simp add: cli_kwargs_def)
  have 3: "get_config test_collaborators test_state = (Inr test_config, test_state)"
    by (simp add: get_config_def test_state_def)
  have 4: "\<forall>p k t. config_global t \<noteq> None \<longrightarrow> config_global (snd (?pf p k t)) = config_global t"
    by (simp add: create_text_payload_config)
  obtain s' out where 5: "publish_message test_collaborators ?pf TEXT_MESSAGE_APP ?kw test_state
      = Inr (s', out)"
    using publish_message_total by blast
  from override_is_written_back[OF 1 2 3 4 5]
  have "config_global s'
              = Some (test_config\<lparr>cfg_nodeinfo_id := ''!A1B2'',
                                  cfg_channel_preset := ''ShortFast''\<rparr>)"
    by (simp add: or_str_def)
  with 1 3 5 show ?thesis by (auto simp: test_config_def)
qed

subsection \<open>Channel key\<close>

lemma resolve_from_parsed:
  assumes "kw_overrides kw = Some ov"
      and "startswith (or_str (ov_node_id ov) bi) ''!''"
      and "int_of_str (replace_empty (or_str (ov_node_id ov) bi) CHR ''!'') 16 = Inr from_id"
  shows "resolve_from kw bi bc bk bd
         = Inr \<lparr>r_overrides = ov, r_node_id = or_str (ov_node_id ov) bi,
                r_channel_id = or_str (ov_channel_preset ov) bc,
                r_channel_key = (case ov_channel_key ov of Some k \<Rightarrow> k | None \<Rightarrow> bk),
                r_gateway_id = lower (or_str (ov_node_id ov) bi), r_from_id = from_id,
                r_destination = or_int (ov_destination ov) (kwargs_get (kw_to kw) bd)\<rparr>"
  using assms by (simp add: resolve_from_def Let_def)

text \<open>
  C2.  For a send whose \<open>_overrides\<close> is present and whose resolved node identifier has
  the sigil and parses, resolution returns, and the resolved channel key is the
  override's key if that field is set, the empty string included, and the key of the
  configuration (of \<open>mmqtt.client\<close> without \<open>use_config\<close>) if the field is unset;
  \<open>handle_args\<close> passes the parsed \<open>--channel_key\<close> on as it is, unset, empty or not.
\<close>

theorem channel_key_is_three_valued:
  assumes "kw_overrides kw = Some ov"
      and "if kwargs_get (kw_use_config kw) False
           then get_config col s = (Inr config, s1)
                \<and> configured_id = cfg_nodeinfo_id config
                \<and> configured_key = cfg_channel_key config
           else s1 = s \<and> configured_id = cl_node_id (client_module s)
                \<and> configured_key = cl_key (client_module s)"
      and "startswith (or_str (ov_node_id ov) configured_id) ''!''"
      and "int_of_str (replace_empty (or_str (ov_node_id ov) configured_id) CHR ''!'') 16
           = Inr from_id"
  shows "(\<exists>r. resolve col kw s = (Inr r, s1)
            \<and> (\<forall>k. ov_channel_key ov = Some k \<longrightarrow> r_channel_key r = k)
            \<and> (ov_channel_key ov = None \<longrightarrow> r_channel_key r = configured_key))
       \<and> ov_channel_key (handle_args_overrides a) = arg_channel_key a"
proof -
  have cli: "ov_channel_key (handle_args_overrides a) = arg_channel_key a"
    by (simp add: handle_args_overrides_def handle_args_channel_key_def)
  have "\<exists>r. resolve col kw s = (Inr r, s1)
            \<and> (\<forall>k. ov_channel_key ov = Some k \<longrightarrow> r_channel_key r = k)
            \<and> (ov_channel_key ov = None \<longrightarrow> r_channel_key r = configured_key)"
  proof (cases "kwargs_get (kw_use_config kw) False")
    case True
    with assms(2) have g: "get_config col s = (Inr config, s1)"
      and c: "configured_id = cfg_nodeinfo_id config" "configured_key = cfg_channel_key config"
      by simp_all
    from True g resolve_from_parsed[OF assms(1) assms(3) assms(4)]
    show ?thesis by (simp add: resolve_def c)
  next
    case False
    with assms(2) have s1: "s1 = s"
      and c: "configured_id = cl_node_id (client_module s)"
      "configured_key = cl_key (client_module s)" by simp_all
    from False resolve_from_parsed[OF assms(1) assms(3) assms(4)]
    show ?thesis by (simp add: resolve_def Let_def c s1)
  qed
  with cli show ?thesis by simp
qed

theorem channel_key_is_three_valued_witness:
  "int_of_str (replace_empty ''!a1b2c3d4'' CHR ''!'') 16 = Inr 2712847316
   \<and> cfg_channel_key test_config = ''AQ==''
   \<and> (\<exists>r. resolve test_collaborators (cli_kwargs no_overrides) test_state = (Inr r, test_state)
          \<and> r_channel_key r = ''AQ=='')
   \<and> (\<exists>r. resolve test_collaborators (cli_kwargs (no_overrides\<lparr>ov_channel_key := Some []\<rparr>))
             test_state = (Inr r, test_state)
          \<and> r_channel_key r = [])
   \<and> (\<exists>r. resolve test_collaborators (cli_kwargs (no_overrides\<lparr>ov_channel_key := Some ''1PG7OiApB1nwvP+rz05pAQ==''\<rparr>))
             test_state = (Inr r, test_state)
          \<and> r_channel_key r = ''1PG7OiApB1nwvP+rz05pAQ=='')
   \<and> ov_channel_key (handle_args_overrides
         \<lparr>arg_node_id = None, arg_channel_preset = None, arg_channel_key = Some [],
          arg_destination = None, arg_hop_limit = None, arg_priority = None\<rparr>) = Some []"
proof -
  let ?a = "\<lparr>arg_node_id = None, arg_channel_preset = None, arg_channel_key = Some [],
          arg_destination = None, arg_hop_limit = None, arg_priority = None\<rparr>"
  have p: "int_of_str (replace_empty ''!a1b2c3d4'' CHR ''!'') 16 = Inr 2712847316" by code_simp
  have sw: "startswith ''!a1b2c3d4'' ''!''" by (simp add: startswith_def)
  have g: "get_config test_collaborators test_state = (Inr test_config, test_state)"
    by (simp add: get_config_def test_state_def)
  have ck: "cfg_channel_key test_config = ''AQ==''" by (simp add: test_config_def)
  have m: "if kwargs_get (kw_use_config (cli_kwargs ov)) False
           then get_config test_collaborators test_state = (Inr test_config, test_state)
                \<and> ''!a1b2c3d4'' = cfg_nodeinfo_id test_config
                \<and> ''AQ=='' = cfg_channel_key test_config
           else test_state = test_state \<and> ''!a1b2c3d4'' = cl_node_id (client_module test_state)
                \<and> ''AQ=='' = cl_key (client_module test_state)" for ov
    by (simp add: g cli_kwargs_def kwargs_get_def test_config_def)
  have o: "kw_overrides (cli_kwargs ov) = Some ov" for ov by (simp add: cli_kwargs_def)
  have sw': "startswith (or_str (ov_node_id (no_overrides\<lparr>ov_channel_key := x\<rparr>)) ''!a1b2c3d4'') ''!''"
    for x by (simp add: or_str_def no_overrides_def startswith_def)
  have p': "int_of_str (replace_empty
              (or_str (ov_node_id (no_overrides\<lparr>ov_channel_key := x\<rparr>)) ''!a1b2c3d4'') CHR ''!'') 16
            = Inr 2712847316" for x
    using p by (simp add: or_str_def no_overrides_def)
  have e: "no_overrides\<lparr>ov_channel_key := None\<rparr> = no_overrides" by (simp add: no_overrides_def)
  note t = channel_key_is_three_valued[OF o m sw' p', of _ ?a]
  have 1: "\<exists>r. resolve test_collaborators (cli_kwargs no_overrides) test_state = (Inr r, test_state)
          \<and> r_channel_key r = ''AQ==''"
    using t[of None] unfolding e by (auto simp: no_overrides_def)
  have 2: "\<exists>r. resolve test_collaborators (cli_kwargs (no_overrides\<lparr>ov_channel_key := Some []\<rparr>))
             test_state = (Inr r, test_state) \<and> r_channel_key r = []"
    using t[of "Some []"] by auto
  have 3: "\<exists>r. resolve test_collaborators (cli_kwargs (no_overrides\<lparr>ov_channel_key := Some ''1PG7OiApB1nwvP+rz05pAQ==''\<rparr>))
             test_state = (Inr r, test_state) \<and> r_channel_key r = ''1PG7OiApB1nwvP+rz05pAQ==''"
    using t[of "Some ''1PG7OiApB1nwvP+rz05pAQ==''"] by auto
  have 4: "ov_channel_key (handle_args_overrides ?a) = Some []"
    using t[of None] by simp
  from p ck 1 2 3 4 show ?thesis by blast
qed

subsection \<open>Body\<close>

lemma generate_mesh_packet_fits:
  assumes r: "resolve col kw s = (Inr r, s1)"
      and nr: "r_from_id r \<notin> set reserved_ids"
      and f: "uint32_field (Some (r_from_id r)) = Inr from_id"
      and d: "uint32_field (r_destination r) = Inr to"
      and hl: "uint32_field (or_int (ov_hop_limit (r_overrides r))
                 (kwargs_get (kw_hop_limit kw) (Some 3))) = Inr hop_limit"
      and hs: "uint32_field (or_int (ov_hop_limit (r_overrides r))
                 (kwargs_get (kw_hop_start kw) (Some 3))) = Inr hop_start"
  shows "generate_mesh_packet col em kw s
         = ((case set_body col (r_channel_id r) (r_channel_key r)
                    (MeshPacket\<lparr>mp_id := uint (get_message_id col (message_id s1)),
                       mp_from := from_id, mp_to := to,
                       mp_want_ack := kwargs_get (kw_want_ack kw) False,
                       mp_channel := uint (generate_hash col (r_channel_id r) (r_channel_key r)),
                       mp_hop_limit := hop_limit, mp_hop_start := hop_start\<rparr>) em of
               Inl e \<Rightarrow> Inl e
             | Inr mp \<Rightarrow> Inr \<lparr>se_packet = mp, se_channel_id = r_channel_id r,
                              se_gateway_id = r_gateway_id r\<rparr>),
            s1\<lparr>message_id := get_message_id col (message_id s1)\<rparr>)"
proof -
  from uint32_field_Inr[OF d] have d': "r_destination r = Some to"
    and d'': "uint32_field (Some to) = Inr to" by (simp_all add: uint32_field_def)
  show ?thesis
    using r nr
    by (simp add: generate_mesh_packet_def fill_packet_def Let_def f d' d'' hl hs int_of_def)
qed

text \<open>
  C1.  For a send that reaches the body (identity resolved, source not reserved, source,
  destination and hop values fitting their fields), the resolved channel key alone decides
  the body.  With an empty key \<open>generate_mesh_packet\<close> returns the packet with \<open>decoded\<close>
  set to the inner message and \<open>encrypted\<close> unset, and the result is the same under
  every encryption function, so none is called.  With a non-empty key it calls
  \<open>encrypt_packet\<close> on the packet without a body: if that returns bytes, the packet is
  returned with \<open>encrypted\<close> set to them and \<open>decoded\<close> unset; if it raises, so does the
  send.  Every packet returned has exactly one of the two set.
\<close>

theorem body_variant_by_channel_key:
  assumes "resolve col kw s = (Inr r, s1)"
      and "r_from_id r \<notin> set reserved_ids"
      and "uint32_field (Some (r_from_id r)) = Inr from_id"
      and "uint32_field (r_destination r) = Inr to"
      and "uint32_field (or_int (ov_hop_limit (r_overrides r))
             (kwargs_get (kw_hop_limit kw) (Some 3))) = Inr hop_limit"
      and "uint32_field (or_int (ov_hop_limit (r_overrides r))
             (kwargs_get (kw_hop_start kw) (Some 3))) = Inr hop_start"
      and "p = MeshPacket\<lparr>mp_id := uint (get_message_id col (message_id s1)),
                 mp_from := from_id, mp_to := to,
                 mp_want_ack := kwargs_get (kw_want_ack kw) False,
                 mp_channel := uint (generate_hash col (r_channel_id r) (r_channel_key r)),
                 mp_hop_limit := hop_limit, mp_hop_start := hop_start\<rparr>"
      and "s2 = s1\<lparr>message_id := get_message_id col (message_id s1)\<rparr>"
  shows "mp_decoded p = None \<and> mp_encrypted p = None
       \<and> (r_channel_key r = [] \<longrightarrow>
             generate_mesh_packet col encoded_message kw s
               = (Inr \<lparr>se_packet = p\<lparr>mp_decoded := Some encoded_message\<rparr>,
                       se_channel_id = r_channel_id r, se_gateway_id = r_gateway_id r\<rparr>, s2)
           \<and> (\<forall>enc. generate_mesh_packet (col\<lparr>encrypt_packet := enc\<rparr>) encoded_message kw s
                      = generate_mesh_packet col encoded_message kw s))
       \<and> (r_channel_key r \<noteq> [] \<longrightarrow>
             (\<forall>b. encrypt_packet col (r_channel_id r) (r_channel_key r) p encoded_message = Inr b
                  \<longrightarrow> generate_mesh_packet col encoded_message kw s
                        = (Inr \<lparr>se_packet = p\<lparr>mp_encrypted := Some b\<rparr>,
                                se_channel_id = r_channel_id r,
                                se_gateway_id = r_gateway_id r\<rparr>, s2))
           \<and> (\<forall>e. encrypt_packet col (r_channel_id r) (r_channel_key r) p encoded_message = Inl e
                  \<longrightarrow> generate_mesh_packet col encoded_message kw s = (Inl e, s2)))
       \<and> (\<forall>env s'. generate_mesh_packet col encoded_message kw s = (Inr env, s') \<longrightarrow>
             (mp_decoded (se_packet env) = None) \<noteq> (mp_encrypted (se_packet env) = None)
           \<and> (mp_encrypted (se_packet env) = None) = (r_channel_key r = []))"
proof -
  note g = generate_mesh_packet_fits[OF assms(1-6), of encoded_message, folded assms(7) assms(8)]
  have p: "mp_decoded p = None \<and> mp_encrypted p = None"
    by (simp add: assms(7) MeshPacket_def)
  have a: "r_channel_key r = [] \<longrightarrow>
             generate_mesh_packet col encoded_message kw s
               = (Inr \<lparr>se_packet = p\<lparr>mp_decoded := Some encoded_message\<rparr>,
                       se_channel_id = r_channel_id r, se_gateway_id = r_gateway_id r\<rparr>, s2)
           \<and> (\<forall>enc. generate_mesh_packet (col\<lparr>encrypt_packet := enc\<rparr>) encoded_message kw s
                      = generate_mesh_packet col encoded_message kw s)"
    using generate_mesh_packet_cleartext[OF assms(1)] by (simp add: g set_body_def)
  have b: "r_channel_key r \<noteq> [] \<longrightarrow>
             (\<forall>b. encrypt_packet col (r_channel_id r) (r_channel_key r) p encoded_message = Inr b
                  \<longrightarrow> generate_mesh_packet col encoded_message kw s
                        = (Inr \<lparr>se_packet = p\<lparr>mp_encrypted := Some b\<rparr>,
                                se_channel_id = r_channel_id r,
                                se_gateway_id = r_gateway_id r\<rparr>, s2))
           \<and> (\<forall>e. encrypt_packet col (r_channel_id r) (r_channel_key r) p encoded_message = Inl e
                  \<longrightarrow> generate_mesh_packet col encoded_message kw s = (Inl e, s2))"
    by (simp add: g set_body_def)
  have c: "\<forall>env s'. generate_mesh_packet col encoded_message kw s = (Inr env, s') \<longrightarrow>
             (mp_decoded (se_packet env) = None) \<noteq> (mp_encrypted (se_packet env) = None)
           \<and> (mp_encrypted (se_packet env) = None) = (r_channel_key r = [])"
    using p by (auto simp: g set_body_def split: sum.splits if_splits)
  from p a b c show ?thesis by blast
qed


theorem body_variant_by_channel_key_witness:
  "encrypt_packet test_collaborators ''LongFast'' ''AQ==''
     \<lparr>mp_id = 42, mp_from = 2712847316, mp_to = 4294967295, mp_want_ack = False,
      mp_channel = 8, mp_hop_limit = 3, mp_hop_start = 3,
      mp_decoded = None, mp_encrypted = None\<rparr> text_hi = Inr ''ih''
   \<and> generate_mesh_packet test_collaborators text_hi (cli_kwargs no_overrides) test_state
      = (Inr \<lparr>se_packet =
                 \<lparr>mp_id = 42, mp_from = 2712847316, mp_to = 4294967295, mp_want_ack = False,
                  mp_channel = 8, mp_hop_limit = 3, mp_hop_start = 3,
                  mp_decoded = None, mp_encrypted = Some ''ih''\<rparr>,
               se_channel_id = ''LongFast'', se_gateway_id = ''!a1b2c3d4''\<rparr>,
         test_state\<lparr>message_id := 42\<rparr>)
   \<and> generate_mesh_packet test_collaborators text_hi
        (cli_kwargs (no_overrides\<lparr>ov_channel_key := Some []\<rparr>)) test_state
      = (Inr \<lparr>se_packet =
                 \<lparr>mp_id = 42, mp_from = 2712847316, mp_to = 4294967295, mp_want_ack = False,
                  mp_channel = 8, mp_hop_limit = 3, mp_hop_start = 3,
                  mp_decoded = Some text_hi, mp_encrypted = None\<rparr>,
               se_channel_id = ''LongFast'', se_gateway_id = ''!a1b2c3d4''\<rparr>,
         test_state\<lparr>message_id := 42\<rparr>)
   \<and> generate_mesh_packet
        (test_collaborators\<lparr>encrypt_packet := (\<lambda>name k p d. Inl (External ''InvalidKey''))\<rparr>)
        text_hi (cli_kwargs (no_overrides\<lparr>ov_channel_key := Some []\<rparr>)) test_state
      = generate_mesh_packet test_collaborators text_hi
          (cli_kwargs (no_overrides\<lparr>ov_channel_key := Some []\<rparr>)) test_state"
proof -
  let ?p = "\<lparr>mp_id = 42, mp_from = 2712847316, mp_to = 4294967295, mp_want_ack = False,
      mp_channel = 8, mp_hop_limit = 3, mp_hop_start = 3,
      mp_decoded = None, mp_encrypted = None\<rparr>"
  let ?r = "\<lambda>ov k. \<lparr>r_overrides = ov, r_node_id = ''!a1b2c3d4'', r_channel_id = ''LongFast'',
              r_channel_key = k, r_gateway_id = ''!a1b2c3d4'', r_from_id = 2712847316,
              r_destination = Some 4294967295\<rparr>"
  let ?ov = "no_overrides\<lparr>ov_channel_key := Some []\<rparr>"
  have r1: "resolve test_collaborators (cli_kwargs no_overrides) test_state
            = (Inr (?r no_overrides ''AQ==''), test_state)" by code_simp
  have r2: "resolve test_collaborators (cli_kwargs ?ov) test_state
            = (Inr (?r ?ov []), test_state)" by code_simp
  have nr: "r_from_id (?r ov k) \<notin> set reserved_ids" for ov k by (simp add: reserved_ids_def)
  have f: "uint32_field (Some (r_from_id (?r ov k))) = Inr 2712847316" for ov k
    by (simp add: uint32_field_def)
  have d: "uint32_field (r_destination (?r ov k)) = Inr 4294967295" for ov k
    by (simp add: uint32_field_def)
  have hl: "uint32_field (or_int (ov_hop_limit (r_overrides (?r (no_overrides\<lparr>ov_channel_key := x\<rparr>) k)))
             (kwargs_get (kw_hop_limit (cli_kwargs (no_overrides\<lparr>ov_channel_key := x\<rparr>))) (Some 3))) = Inr 3"
    for x k
    by (simp add: uint32_field_def or_int_def kwargs_get_def cli_kwargs_def no_overrides_def)
  have hs: "uint32_field (or_int (ov_hop_limit (r_overrides (?r (no_overrides\<lparr>ov_channel_key := x\<rparr>) k)))
             (kwargs_get (kw_hop_start (cli_kwargs (no_overrides\<lparr>ov_channel_key := x\<rparr>))) (Some 3))) = Inr 3"
    for x k
    by (simp add: uint32_field_def or_int_def kwargs_get_def cli_kwargs_def no_overrides_def)
  have e: "no_overrides\<lparr>ov_channel_key := None\<rparr> = no_overrides" by (simp add: no_overrides_def)
  have p: "?p = MeshPacket\<lparr>mp_id := uint (get_message_id test_collaborators (message_id test_state)),
                 mp_from := 2712847316, mp_to := 4294967295,
                 mp_want_ack := kwargs_get (kw_want_ack (cli_kwargs ov)) False,
                 mp_channel := uint (generate_hash test_collaborators (r_channel_id (?r ov k))
                                       (r_channel_key (?r ov k))),
                 mp_hop_limit := 3, mp_hop_start := 3\<rparr>" for ov k
    by (simp add: MeshPacket_def test_collaborators_def test_state_def cli_kwargs_def kwargs_get_def)
  have s2: "test_state\<lparr>message_id := 42\<rparr>
            = test_state\<lparr>message_id := get_message_id test_collaborators (message_id test_state)\<rparr>"
    by (simp add: test_collaborators_def test_state_def)
  have enc: "encrypt_packet test_collaborators ''LongFast'' ''AQ=='' ?p text_hi = Inr ''ih''"
    by (simp add: test_collaborators_def text_hi_def)
  from body_variant_by_channel_key[OF r1 nr f d hl[of None, unfolded e] hs[of None, unfolded e]
      p s2, of text_hi] enc
  have 1: "generate_mesh_packet test_collaborators text_hi (cli_kwargs no_overrides) test_state
      = (Inr \<lparr>se_packet = ?p\<lparr>mp_encrypted := Some ''ih''\<rparr>,
               se_channel_id = ''LongFast'', se_gateway_id = ''!a1b2c3d4''\<rparr>,
         test_state\<lparr>message_id := 42\<rparr>)"
    by simp
  from body_variant_by_channel_key[OF r2 nr f d hl[of "Some []"] hs[of "Some []"] p s2, of text_hi]
  have 2: "generate_mesh_packet test_collaborators text_hi (cli_kwargs ?ov) test_state
      = (Inr \<lparr>se_packet = ?p\<lparr>mp_decoded := Some text_hi\<rparr>,
               se_channel_id = ''LongFast'', se_gateway_id = ''!a1b2c3d4''\<rparr>,
         test_state\<lparr>message_id := 42\<rparr>)"
    and 3: "generate_mesh_packet
        (test_collaborators\<lparr>encrypt_packet := (\<lambda>name k p d. Inl (External ''InvalidKey''))\<rparr>)
        text_hi (cli_kwargs ?ov) test_state
      = generate_mesh_packet test_collaborators text_hi (cli_kwargs ?ov) test_state"
    by simp_all
  from enc 1 2 3 show ?thesis by simp
qed

subsection \<open>Topic\<close>

lemma publish_topic_resolved:
  assumes "kw_overrides kw = Some ov"
      and "if kwargs_get (kw_use_config kw) False
           then (\<exists>s0. get_config col s = (Inr config, s0))
                \<and> root = cfg_mqtt_root_topic config
                \<and> preset = or_str (ov_channel_preset ov) (cfg_channel_preset config)
                \<and> nid = or_str (ov_node_id ov) (cfg_nodeinfo_id config)
           else root = cl_root_topic (client_module s)
                \<and> preset = or_str (ov_channel_preset ov) (cl_channel (client_module s))
                \<and> nid = or_str (ov_node_id ov) (cl_node_id (client_module s))"
  shows "\<exists>s1. publish_topic col kw s = (Inr (root @ ''/2/e/'' @ preset @ ''/'' @ lower nid), s1)"
proof (cases "kwargs_get (kw_use_config kw) False")
  case True
  with assms(2) obtain s0 where "get_config col s = (Inr config, s0)"
    and "root = cfg_mqtt_root_topic config"
    and "preset = or_str (ov_channel_preset ov) (cfg_channel_preset config)"
    and "nid = or_str (ov_node_id ov) (cfg_nodeinfo_id config)" by auto
  with True assms(1) show ?thesis by (simp add: publish_topic_def Let_def topic_of_def)
next
  case False
  with assms show ?thesis by (simp add: publish_topic_def Let_def topic_of_def)
qed

lemma publish_message_published:
  assumes "publish_topic col kw s = (Inr topic, s1)"
      and "pf portnum kw s1 = (Inr payload, s2)"
      and "client_publish col topic payload = None"
  shows "publish_message col pf portnum kw s
         = Inr (s2, [Print_TX portnum, Print_Topic topic, Print_To (printed_destination kw s1),
                     Publish topic payload])"
  using assms by (simp add: publish_message_def publish_message_try_def Let_def)

text \<open>
  C7.  In both modes, a send whose \<open>_overrides\<close> is present gets the topic
  \<open>root/2/e/preset/nid\<close> with the last segment in lower case: the root topic of the
  configuration (of \<open>mmqtt.client\<close> without \<open>use_config\<close>), the resolved channel name
  (the override when non-empty, else the configured one) and the resolved node identifier.
  When the payload function returns and the transport accepts, \<open>publish_message\<close>
  prints that topic and publishes the payload under it; no transport call is made under
  any other topic.  For a text message the two resolved segments are the \<open>channel_id\<close>
  and the \<open>gateway_id\<close> of the envelope that is published.
\<close>

theorem topic_format:
  assumes "kw_overrides kw = Some ov"
      and "if kwargs_get (kw_use_config kw) False
           then (\<exists>s0. get_config col s = (Inr config, s0))
                \<and> root = cfg_mqtt_root_topic config
                \<and> preset = or_str (ov_channel_preset ov) (cfg_channel_preset config)
                \<and> nid = or_str (ov_node_id ov) (cfg_nodeinfo_id config)
           else root = cl_root_topic (client_module s)
                \<and> preset = or_str (ov_channel_preset ov) (cl_channel (client_module s))
                \<and> nid = or_str (ov_node_id ov) (cl_node_id (client_module s))"
      and "topic = root @ ''/2/e/'' @ preset @ ''/'' @ lower nid"
  shows "\<exists>s1. publish_topic col kw s = (Inr topic, s1)
          \<and> (\<forall>payload s2.
                payload_function portnum kw s1 = (Inr payload, s2)
                \<and> client_publish col topic payload = None \<longrightarrow>
                publish_message col payload_function portnum kw s
                  = Inr (s2, [Print_TX portnum, Print_Topic topic,
                              Print_To (printed_destination kw s1), Publish topic payload]))
          \<and> (\<forall>s' out t payload.
                publish_message col payload_function portnum kw s = Inr (s', out)
                \<and> Publish t payload \<in> set out \<longrightarrow>
                t = topic
                \<and> (\<forall>message. payload_function = create_text_payload col message \<longrightarrow>
                      se_channel_id payload = preset \<and> se_gateway_id payload = lower nid))"
proof -
  from publish_topic_resolved[OF assms(1,2)] obtain s1 where
    t: "publish_topic col kw s = (Inr topic, s1)" unfolding assms(3) by blast
  have a: "\<forall>payload s2.
                payload_function portnum kw s1 = (Inr payload, s2)
                \<and> client_publish col topic payload = None \<longrightarrow>
                publish_message col payload_function portnum kw s
                  = Inr (s2, [Print_TX portnum, Print_Topic topic,
                              Print_To (printed_destination kw s1), Publish topic payload])"
    using publish_message_published[OF t] by blast
  have b: "t' = topic
           \<and> (\<forall>message. payload_function = create_text_payload col message \<longrightarrow>
                      se_channel_id payload = preset \<and> se_gateway_id payload = lower nid)"
    if pm: "publish_message col payload_function portnum kw s = Inr (s', out)"
      and ev: "Publish t' payload \<in> set out" for s' out t' payload
  proof -
    from publish_message_Publish[OF pm ev] t have tt: "t' = topic" by auto
    from published_topic[OF pm ev] obtain ov' root' preset' nid' where
      o: "kw_overrides kw = Some ov'"
      and c: "if kwargs_get (kw_use_config kw) False
             then \<exists>config s0. get_config col s = (Inr config, s0)
                    \<and> root' = cfg_mqtt_root_topic config
                    \<and> preset' = or_str (ov_channel_preset ov') (cfg_channel_preset config)
                    \<and> nid' = or_str (ov_node_id ov') (cfg_nodeinfo_id config)
             else root' = cl_root_topic (client_module s)
                \<and> preset' = or_str (ov_channel_preset ov') (cl_channel (client_module s))
                \<and> nid' = or_str (ov_node_id ov') (cl_node_id (client_module s))"
      and l: "\<forall>message. payload_function = create_text_payload col message \<longrightarrow>
                se_channel_id payload = preset' \<and> se_gateway_id payload = lower nid'"
      by blast
    from o assms(1) have oo: "ov' = ov" by simp
    have "preset' = preset \<and> nid' = nid"
    proof (cases "kwargs_get (kw_use_config kw) False")
      case True
      with c assms(2) show ?thesis unfolding oo by auto
    next
      case False
      with c assms(2) show ?thesis unfolding oo by auto
    qed
    with l tt show ?thesis by simp
  qed
  from t a b show ?thesis by blast
qed


theorem topic_format_witness:
  "publish_message test_collaborators (create_text_payload test_collaborators (Some ''hi''))
     TEXT_MESSAGE_APP ((cli_kwargs no_overrides)\<lparr>kw_use_config := None\<rparr>) test_state
   = Inr (test_state\<lparr>message_id := 42\<rparr>,
          [Print_TX 1,
           Print_Topic (''msh/US'' @ ''/2/e/'' @ ''MediumFast'' @ ''/'' @ lower ''!DEADBEEF''),
           Print_To (Some 4294967295),
           Publish (''msh/US'' @ ''/2/e/'' @ ''MediumFast'' @ ''/'' @ lower ''!DEADBEEF'')
             \<lparr>se_packet =
                \<lparr>mp_id = 42, mp_from = 3735928559, mp_to = 4294967295, mp_want_ack = False,
                 mp_channel = 8, mp_hop_limit = 3, mp_hop_start = 3,
                 mp_decoded = Some text_hi, mp_encrypted = None\<rparr>,
              se_channel_id = ''MediumFast'', se_gateway_id = ''!deadbeef''\<rparr>])
   \<and> publish_message test_collaborators (create_text_payload test_collaborators (Some ''hi''))
     TEXT_MESSAGE_APP (cli_kwargs (no_overrides\<lparr>ov_node_id := Some ''!A1B2''\<rparr>)) test_state
   = Inr (test_state\<lparr>config_global := Some (test_config\<lparr>cfg_nodeinfo_id := ''!A1B2''\<rparr>),
                     message_id := 42\<rparr>,
          [Print_TX 1,
           Print_Topic (''msh/EU_868'' @ ''/2/e/'' @ ''LongFast'' @ ''/'' @ lower ''!A1B2''),
           Print_To (Some 4294967295),
           Publish (''msh/EU_868'' @ ''/2/e/'' @ ''LongFast'' @ ''/'' @ lower ''!A1B2'')
             \<lparr>se_packet =
                \<lparr>mp_id = 42, mp_from = 41394, mp_to = 4294967295, mp_want_ack = False,
                 mp_channel = 8, mp_hop_limit = 3, mp_hop_start = 3,
                 mp_decoded = None, mp_encrypted = Some ''ih''\<rparr>,
              se_channel_id = ''LongFast'', se_gateway_id = ''!a1b2''\<rparr>])
   \<and> lower ''!DEADBEEF'' = ''!deadbeef'' \<and> lower ''!A1B2'' = ''!a1b2''"
proof -
  let ?pf = "create_text_payload test_collaborators (Some ''hi'')"
  let ?kw1 = "(cli_kwargs no_overrides)\<lparr>kw_use_config := None\<rparr>"
  let ?ov2 = "no_overrides\<lparr>ov_node_id := Some ''!A1B2''\<rparr>"
  let ?kw2 = "cli_kwargs ?ov2"
  let ?t1 = "''msh/US'' @ ''/2/e/'' @ ''MediumFast'' @ ''/'' @ lower ''!DEADBEEF''"
  let ?t2 = "''msh/EU_868'' @ ''/2/e/'' @ ''LongFast'' @ ''/'' @ lower ''!A1B2''"
  let ?e1 = "\<lparr>se_packet =
                \<lparr>mp_id = 42, mp_from = 3735928559, mp_to = 4294967295, mp_want_ack = False,
                 mp_channel = 8, mp_hop_limit = 3, mp_hop_start = 3,
                 mp_decoded = Some text_hi, mp_encrypted = None\<rparr>,
              se_channel_id = ''MediumFast'', se_gateway_id = ''!deadbeef''\<rparr>"
  let ?e2 = "\<lparr>se_packet =
                \<lparr>mp_id = 42, mp_from = 41394, mp_to = 4294967295, mp_want_ack = False,
                 mp_channel = 8, mp_hop_limit = 3, mp_hop_start = 3,
                 mp_decoded = None, mp_encrypted = Some ''ih''\<rparr>,
              se_channel_id = ''LongFast'', se_gateway_id = ''!a1b2''\<rparr>"
  let ?s2 = "test_state\<lparr>config_global := Some (test_config\<lparr>cfg_nodeinfo_id := ''!A1B2''\<rparr>)\<rparr>"
  have l: "lower ''!DEADBEEF'' = ''!deadbeef''" "lower ''!A1B2'' = ''!a1b2''" by code_simp+
  \<comment> \<open>without \<open>use_config\<close>\<close>
  have o1: "kw_overrides ?kw1 = Some no_overrides" by (simp add: cli_kwargs_def)
  have m1: "if kwargs_get (kw_use_config ?kw1) False
           then (\<exists>s0. get_config test_collaborators test_state = (Inr test_config, s0))
                \<and> ''msh/US'' = cfg_mqtt_root_topic test_config
                \<and> ''MediumFast'' = or_str (ov_channel_preset no_overrides) (cfg_channel_preset test_config)
                \<and> ''!DEADBEEF'' = or_str (ov_node_id no_overrides) (cfg_nodeinfo_id test_config)
           else ''msh/US'' = cl_root_topic (client_module test_state)
                \<and> ''MediumFast'' = or_str (ov_channel_preset no_overrides) (cl_channel (client_module test_state))
                \<and> ''!DEADBEEF'' = or_str (ov_node_id no_overrides) (cl_node_id (client_module test_state))"
    by (simp add: cli_kwargs_def kwargs_get_def test_state_def or_str_def no_overrides_def)
  have pt1: "publish_topic test_collaborators ?kw1 test_state = (Inr ?t1, test_state)"
    by code_simp
  have pf1: "?pf TEXT_MESSAGE_APP ?kw1 test_state = (Inr ?e1, test_state\<lparr>message_id := 42\<rparr>)"
    by code_simp
  have cp1: "client_publish test_collaborators ?t1 ?e1 = None"
    by (simp add: test_collaborators_def)
  have pd1: "printed_destination ?kw1 test_state = Some 4294967295" by code_simp
  from topic_format[OF o1 m1 refl, of ?pf TEXT_MESSAGE_APP] obtain s1 where
    a1: "publish_topic test_collaborators ?kw1 test_state = (Inr ?t1, s1)"
    and b1: "\<And>payload s2. ?pf TEXT_MESSAGE_APP ?kw1 s1 = (Inr payload, s2)
                \<and> client_publish test_collaborators ?t1 payload = None \<Longrightarrow>
                publish_message test_collaborators ?pf TEXT_MESSAGE_APP ?kw1 test_state
                  = Inr (s2, [Print_TX TEXT_MESSAGE_APP, Print_Topic ?t1,
                              Print_To (printed_destination ?kw1 s1), Publish ?t1 payload])"
    by blast
  from a1 have e1: "s1 = test_state" unfolding pt1 by (rule Pair_inject) (rule sym)
  have 1: "publish_message test_collaborators ?pf TEXT_MESSAGE_APP ?kw1 test_state
   = Inr (test_state\<lparr>message_id := 42\<rparr>,
          [Print_TX 1, Print_Topic ?t1, Print_To (Some 4294967295), Publish ?t1 ?e1])"
    using b1[of ?e1 "test_state\<lparr>message_id := 42\<rparr>"] pf1 cp1
    unfolding e1 pd1 TEXT_MESSAGE_APP_def by blast
  \<comment> \<open>with \<open>use_config\<close>\<close>
  have o2: "kw_overrides ?kw2 = Some ?ov2" by (simp add: cli_kwargs_def)
  have m2: "if kwargs_get (kw_use_config ?kw2) False
           then (\<exists>s0. get_config test_collaborators test_state = (Inr test_config, s0))
                \<and> ''msh/EU_868'' = cfg_mqtt_root_topic test_config
                \<and> ''LongFast'' = or_str (ov_channel_preset ?ov2) (cfg_channel_preset test_config)
                \<and> ''!A1B2'' = or_str (ov_node_id ?ov2) (cfg_nodeinfo_id test_config)
           else ''msh/EU_868'' = cl_root_topic (client_module test_state)
                \<and> ''LongFast'' = or_str (ov_channel_preset ?ov2) (cl_channel (client_module test_state))
                \<and> ''!A1B2'' = or_str (ov_node_id ?ov2) (cl_node_id (client_module test_state))"
    by (simp add: cli_kwargs_def kwargs_get_def test_state_def test_config_def or_str_def
          no_overrides_def get_config_def)
  have pt2: "publish_topic test_collaborators ?kw2 test_state = (Inr ?t2, ?s2)"
    by code_simp
  have pf2: "?pf TEXT_MESSAGE_APP ?kw2 ?s2 = (Inr ?e2, ?s2\<lparr>message_id := 42\<rparr>)"
    by code_simp
  have cp2: "client_publish test_collaborators ?t2 ?e2 = None"
    by (simp add: test_collaborators_def)
  have pd2: "printed_destination ?kw2 ?s2 = Some 4294967295" by code_simp
  from topic_format[OF o2 m2 refl, of ?pf TEXT_MESSAGE_APP] obtain s1' where
    a2: "publish_topic test_collaborators ?kw2 test_state = (Inr ?t2, s1')"
    and b2: "\<And>payload s2. ?pf TEXT_MESSAGE_APP ?kw2 s1' = (Inr payload, s2)
                \<and> client_publish test_collaborators ?t2 payload = None \<Longrightarrow>
                publish_message test_collaborators ?pf TEXT_MESSAGE_APP ?kw2 test_state
                  = Inr (s2, [Print_TX TEXT_MESSAGE_APP, Print_Topic ?t2,
                              Print_To (printed_destination ?kw2 s1'), Publish ?t2 payload])"
    by blast
  from a2 have e2: "s1' = ?s2" unfolding pt2 by (rule Pair_inject) (rule sym)
  have 2: "publish_message test_collaborators ?pf TEXT_MESSAGE_APP ?kw2 test_state
   = Inr (?s2\<lparr>message_id := 42\<rparr>,
          [Print_TX 1, Print_Topic ?t2, Print_To (Some 4294967295), Publish ?t2 ?e2])"
    using b2[of ?e2 "?s2\<lparr>message_id := 42\<rparr>"] pf2 cp2
    unfolding e2 pd2 TEXT_MESSAGE_APP_def by blast
  from 1 2 l show ?thesis by (intro conjI)
qed

end
